theory Spec2Isabelle
  imports Main "HOL-Library.Word"
begin

unbundle bit_operations_syntax

section \<open>Machine integers and text formatting\<close>

type_synonym u8 = "8 word"
type_synonym u16 = "16 word"
type_synonym u32 = "32 word"
type_synonym u64 = "64 word"

text \<open>
  Go strings are byte strings; they are modelled as \<^typ>\<open>string\<close>. The verbs of package
  \<open>fmt\<close> that \<open>output.go\<close> uses are written out: \<open>%d\<close> and \<open>%x\<close> on integers, and
  \<open>%Ns\<close> / \<open>%Nd\<close>, which pad with blanks on the left up to width \<open>N\<close>. Go counts the
  width of a string in runes, not in bytes, so the padding is computed from
  \<open>utf8.RuneCountInString\<close>, written out below.
\<close>

definition digit_char :: "nat \<Rightarrow> char" where
  "digit_char d = (''0123456789abcdef'') ! d"

function digits_of :: "nat \<Rightarrow> nat \<Rightarrow> string" where
  "digits_of b n =
     (if b < 2 \<or> n < b then [digit_char n]
      else digits_of b (n div b) @ [digit_char (n mod b)])"
  by pat_completeness auto
termination
  by (relation "measure (\<lambda>(b, n). n)") auto

declare digits_of.simps [simp del]

text \<open>\<open>%d\<close> and \<open>%x\<close> of an integer: a minus sign, then the magnitude.\<close>

definition fmt_int :: "nat \<Rightarrow> int \<Rightarrow> string" where
  "fmt_int b i = (if i < 0 then ''-'' @ digits_of b (nat (- i)) else digits_of b (nat i))"

definition fmt_d :: "int \<Rightarrow> string" where
  "fmt_d i = fmt_int 10 i"

definition fmt_x :: "int \<Rightarrow> string" where
  "fmt_x i = fmt_int 16 i"

text \<open>\<open>fmt.Sprintf("0x%x", a)\<close> for an unsigned 64-bit \<open>a\<close>.\<close>

definition hex_literal :: "u64 \<Rightarrow> string" where
  "hex_literal a = ''0x'' @ fmt_x (uint a)"

text \<open>
  \<open>utf8.RuneCountInString\<close> of the standard library. It walks the bytes; at each position
  it steps over one rune: one byte for ASCII, for a byte that cannot start an encoding
  (\<open>0x80\<close> to \<open>0xC1\<close>, \<open>0xF5\<close> to \<open>0xFF\<close>) and for an encoding that is cut short or
  whose continuation bytes are out of range, and otherwise the two, three or four bytes
  of the encoding. The first continuation byte has a range of its own after the lead
  bytes \<open>0xE0\<close>, \<open>0xED\<close>, \<open>0xF0\<close> and \<open>0xF4\<close>.
\<close>

definition lead_size :: "nat \<Rightarrow> nat" where
  "lead_size b = (if b < 0xE0 then 2 else if b < 0xF0 then 3 else 4)"

definition accept_lo :: "nat \<Rightarrow> nat" where
  "accept_lo b = (if b = 0xE0 then 0xA0 else if b = 0xF0 then 0x90 else 0x80)"

definition accept_hi :: "nat \<Rightarrow> nat" where
  "accept_hi b = (if b = 0xED then 0x9F else if b = 0xF4 then 0x8F else 0xBF)"

text \<open>The number of bytes of the rune that starts with the byte \<open>c\<close>, followed by \<open>cs\<close>.\<close>

definition rune_width :: "char \<Rightarrow> string \<Rightarrow> nat" where
  "rune_width c cs =
     (let b = (of_char c :: nat) in
      if b < 0x80 then 1
      else if b < 0xC2 \<or> 0xF4 < b then 1
      else let size = lead_size b in
        if Suc (length cs) < size then 1
        else if (of_char (cs ! 0) :: nat) < accept_lo b \<or>
                accept_hi b < (of_char (cs ! 0) :: nat) then 1
        else if size = 2 then 2
        else if (of_char (cs ! 1) :: nat) < 0x80 \<or> 0xBF < (of_char (cs ! 1) :: nat) then 1
        else if size = 3 then 3
        else if (of_char (cs ! 2) :: nat) < 0x80 \<or> 0xBF < (of_char (cs ! 2) :: nat) then 1
        else 4)"

function RuneCountInString :: "string \<Rightarrow> nat" where
  "RuneCountInString [] = 0"
| "RuneCountInString (c # cs) = Suc (RuneCountInString (drop (rune_width c cs - 1) cs))"
  by pat_completeness auto
termination
  by (relation "measure length") auto

declare RuneCountInString.simps(2) [simp del]

text \<open>\<open>%Ns\<close>: blanks on the left up to \<open>N\<close> runes, none when the text has \<open>N\<close> or more.\<close>

definition pad_left :: "nat \<Rightarrow> string \<Rightarrow> string" where
  "pad_left w s = replicate (w - RuneCountInString s) CHR '' '' @ s"

section \<open>Protocol tags and endpoints\<close>

text \<open>The constants of Go's \<open>syscall\<close> package on Linux that \<open>output.go\<close> names.\<close>

definition IPPROTO_TCP :: u8 where "IPPROTO_TCP = 6"
definition IPPROTO_UDP :: u8 where "IPPROTO_UDP = 17"
definition IPPROTO_ICMP :: u8 where "IPPROTO_ICMP = 1"
definition IPPROTO_ICMPV6 :: u8 where "IPPROTO_ICMPV6 = 58"
definition ETH_P_IP :: u16 where "ETH_P_IP = 0x0800"
definition ETH_P_IPV6 :: u16 where "ETH_P_IPV6 = 0x86DD"

text \<open>\<open>protoToStr\<close>, \<open>output.go\<close> lines 140-153.\<close>

definition protoToStr :: "u8 \<Rightarrow> string" where
  "protoToStr proto =
     (if proto = IPPROTO_TCP then ''tcp''
      else if proto = IPPROTO_UDP then ''udp''
      else if proto = IPPROTO_ICMP then ''icmp''
      else if proto = IPPROTO_ICMPV6 then ''icmp6''
      else '''')"

text \<open>
  \<open>addrToStr\<close>, \<open>output.go\<close> lines 155-164. The first argument stands for the standard
  library's \<open>net.IP.String\<close>, which the function applies to the slice \<open>addr[:4]\<close> or
  \<open>addr[:]\<close>; the address buffer \<open>[16]byte\<close> is a list of bytes.
\<close>

definition addrToStr :: "(u8 list \<Rightarrow> string) \<Rightarrow> u16 \<Rightarrow> u8 list \<Rightarrow> string" where
  "addrToStr IP_String proto addr =
     (if proto = ETH_P_IP then IP_String (take 4 addr)
      else if proto = ETH_P_IPV6 then ''['' @ IP_String addr @ '']''
      else '''')"

text \<open>
  Modelled from the spec: \<open>byteorder.NetworkToHost16\<close> of package \<open>internal/byteorder\<close>,
  which \<open>Print\<close> applies to both ports and whose source is not part of \<open>src/\<close>. Section
  4.6: ``Ports are stored in network byte order and must be converted to host order before
  rendering.'' Network byte order is big-endian, so on a little-endian host the two bytes
  are exchanged and on a big-endian host the value is left as it is.
\<close>

datatype byte_order = LittleEndian | BigEndian

definition NetworkToHost16 :: "byte_order \<Rightarrow> u16 \<Rightarrow> u16" where
  "NetworkToHost16 host n =
     (case host of
        BigEndian \<Rightarrow> n
      | LittleEndian \<Rightarrow> push_bit 8 n OR drop_bit 8 n)"

text \<open>
  The 16-bit value a host of the given byte order reads from two consecutive bytes of
  memory, \<open>b0\<close> at the lower address.
\<close>

definition load16 :: "byte_order \<Rightarrow> u8 \<Rightarrow> u8 \<Rightarrow> u16" where
  "load16 host b0 b1 =
     (case host of
        BigEndian \<Rightarrow> push_bit 8 (ucast b0) OR ucast b1
      | LittleEndian \<Rightarrow> push_bit 8 (ucast b1) OR ucast b0)"

section \<open>Events, flags and the collaborators of the renderer\<close>

text \<open>
  \<open>Event\<close>, \<open>Meta\<close>, \<open>Tuple\<close>, \<open>Flags\<close>, \<open>StackData\<close>, \<open>Addr2Name\<close> and \<open>ksym\<close> are declared
  in files that are not part of \<open>src/\<close>; the records below hold the fields \<open>output.go\<close>
  reads. Where \<open>output.go\<close> fixes the width of a field it is a word: \<open>Addr\<close>, \<open>SAddr\<close>
  and \<open>Timestamp\<close> are \<open>uint64\<close> (they are assigned to \<open>uint64\<close> variables and index
  \<open>map[uint64]uint64\<close>), \<open>L3Proto\<close> is \<open>uint16\<close>, \<open>L4Proto\<close> is \<open>uint8\<close>, the ports are
  16 bits and the addresses are \<open>[16]byte\<close>. The other integer fields are only converted
  (\<open>int(...)\<close>, \<open>uint32(...)\<close>), compared with 0 or formatted, so they are kept as
  mathematical integers, which covers every integer type Go could give them.
\<close>

record Meta =
  Netns :: int
  Mark :: int
  Ifindex :: int
  Proto :: int
  MTU :: int
  Len :: int

record Tuple =
  Saddr :: "u8 list"
  Daddr :: "u8 list"
  Sport :: u16
  Dport :: u16
  L3Proto :: u16
  L4Proto :: u8

record Event =
  PID :: int
  CPU :: int
  Addr :: u64
  SAddr :: u64
  Timestamp :: u64
  PrintSkbId :: int
  PrintStackId :: int
  Meta :: Meta
  Tuple :: Tuple

record Flags =
  OutputTS :: string
  OutputMeta :: bool
  OutputTuple :: bool
  OutputStack :: bool
  OutputSkb :: bool
  OutputFile :: string

record ksym =
  addr :: u64
  name :: string

text \<open>
  \<open>findNearestSym\<close> is a method of \<open>Addr2Name\<close> whose body is not part of \<open>src/\<close>; it is
  a field here, so every theorem holds for whatever it computes.
\<close>

record Addr2Name =
  Addr2NameMap :: "u64 \<rightharpoonup> ksym"
  findNearestSym :: "u64 \<Rightarrow> string"

record StackData =
  IPs :: "u64 list"

datatype error = ErrKeyNotExist | ErrClosed | OSError string

subsection \<open>The kernel tables (\<open>*ebpf.Map\<close>)\<close>

text \<open>
  A table of the library \<open>github.com/cilium/ebpf\<close>: its entries, whether its descriptor has
  been closed (then every operation fails and changes nothing), and the calls made on it
  so far, in order. The three operations follow the library's documentation:
  \<open>Lookup\<close> ``returns an error if the key doesn't exist'', \<open>LookupBytes\<close> ``returns a nil
  value if a key doesn't exist'' (and no error), \<open>Delete\<close> ``removes a value'' and
  ``returns ErrKeyNotExist if the key does not exist''.
\<close>

datatype map_call = LookupCall u32 | LookupBytesCall u32 | DeleteCall u32

record 'v ebpf_Map =
  entries :: "u32 \<rightharpoonup> 'v"
  closed :: bool
  calls :: "map_call list"

definition Lookup :: "'v ebpf_Map \<Rightarrow> u32 \<Rightarrow> 'v ebpf_Map \<times> (error + 'v)" where
  "Lookup m k =
     (m\<lparr>calls := calls m @ [LookupCall k]\<rparr>,
      if closed m then Inl ErrClosed
      else case entries m k of None \<Rightarrow> Inl ErrKeyNotExist | Some v \<Rightarrow> Inr v)"

definition LookupBytes :: "string ebpf_Map \<Rightarrow> u32 \<Rightarrow> string ebpf_Map \<times> (error + string)" where
  "LookupBytes m k =
     (m\<lparr>calls := calls m @ [LookupBytesCall k]\<rparr>,
      if closed m then Inl ErrClosed
      else case entries m k of None \<Rightarrow> Inr [] | Some v \<Rightarrow> Inr v)"

definition Delete :: "'v ebpf_Map \<Rightarrow> u32 \<Rightarrow> 'v ebpf_Map \<times> error option" where
  "Delete m k =
     (if closed m then (m\<lparr>calls := calls m @ [DeleteCall k]\<rparr>, Some ErrClosed)
      else (m\<lparr>entries := (entries m)(k := None), calls := calls m @ [DeleteCall k]\<rparr>,
            if entries m k = None then Some ErrKeyNotExist else None))"

subsection \<open>The sink, the process table and the platform\<close>

text \<open>
  An \<open>io.Writer\<close> is the sink it writes to and the texts written to it so far, one per
  call. \<open>Print\<close> ignores what \<open>fmt.Fprintf\<close> returns, so a write is the text handed over.
\<close>

datatype sink = Stdout | File string

record Writer =
  sink :: sink
  written :: "string list"

definition os_Stdout :: Writer where
  "os_Stdout = \<lparr>sink = Stdout, written = []\<rparr>"

definition Fprintf :: "Writer \<Rightarrow> string \<Rightarrow> Writer" where
  "Fprintf w s = w\<lparr>written := written w @ [s]\<rparr>"

definition newline :: string where
  "newline = [CHR 0x0A]"

datatype Process = Process (Executable: string)

text \<open>
  What \<open>Print\<close> takes from outside the program: the architecture it was built for
  (\<open>runtime.GOARCH\<close>), the byte order of that host, the process table behind
  \<open>ps.FindProcess\<close> (a process or \<open>nil\<close>, and an error or \<open>nil\<close>), \<open>net.IP.String\<close>, and
  whether \<open>os.Create\<close> succeeds for a file name.
\<close>

record Env =
  GOARCH :: string
  host_order :: byte_order
  FindProcess :: "int \<Rightarrow> Process option \<times> error option"
  IP_String :: "u8 list \<Rightarrow> string"
  os_Create :: "string \<Rightarrow> error option"

section \<open>The renderer (\<open>output.go\<close>)\<close>

text \<open>The struct \<open>output\<close>, lines 21-29 (\<open>output\<close> is a keyword of Isabelle).\<close>

record output_state =
  flags :: Flags
  lastSeenSkb :: "u64 \<rightharpoonup> u64"
  printSkbMap :: "string ebpf_Map"
  printStackMap :: "StackData ebpf_Map"
  addr2name :: Addr2Name
  writer :: Writer
  kprobeMulti :: bool

text \<open>\<open>NewOutput\<close>, lines 31-53.\<close>

definition NewOutput ::
  "Env \<Rightarrow> Flags \<Rightarrow> string ebpf_Map \<Rightarrow> StackData ebpf_Map \<Rightarrow> Addr2Name \<Rightarrow> bool \<Rightarrow> error + output_state" where
  "NewOutput env fl skbMap stackMap addr2Name multi =
     (let new = (\<lambda>w. \<lparr>flags = fl, lastSeenSkb = Map.empty, printSkbMap = skbMap,
                      printStackMap = stackMap, addr2name = addr2Name, writer = w,
                      kprobeMulti = multi\<rparr>)
      in if OutputFile fl \<noteq> ''''
         then (case os_Create env (OutputFile fl) of
                 Some err \<Rightarrow> Inl err
               | None \<Rightarrow> Inr (new \<lparr>sink = File (OutputFile fl), written = []\<rparr>))
         else Inr (new os_Stdout))"

text \<open>\<open>PrintHeader\<close>, lines 55-61.\<close>

definition PrintHeader :: "output_state \<Rightarrow> output_state" where
  "PrintHeader out =
     (let w1 = Fprintf (writer out)
                 (pad_left 18 ''SKB'' @ '' '' @ pad_left 6 ''CPU'' @ '' '' @
                  pad_left 16 ''PROCESS'' @ '' '' @ pad_left 24 ''FUNC'');
          w2 = (if OutputTS (flags out) \<noteq> ''none''
                then Fprintf w1 ('' '' @ pad_left 16 ''TIMESTAMP'') else w1)
      in out\<lparr>writer := Fprintf w2 newline\<rparr>)"

subsection \<open>\<open>Print\<close>, lines 63-138\<close>

text \<open>
  The locals of \<open>Print\<close> are definitions of their own, named after the local, and \<open>Print\<close>
  puts them together in the order of the source. A pointer of the source (\<open>event\<close>, \<open>o\<close>,
  the values of \<open>Addr2NameMap\<close>) is the record it points to.
\<close>

text \<open>\<open>execName\<close>, lines 64-68.\<close>

definition Print_execName :: "Env \<Rightarrow> Event \<Rightarrow> string" where
  "Print_execName env event =
     (let (p, err) = FindProcess env (PID event)
      in if err = None \<and> p \<noteq> None then Executable (the p) else ''<empty>'')"

text \<open>\<open>ts\<close>, lines 69-76; the subtraction is that of \<open>uint64\<close>.\<close>

definition Print_ts :: "output_state \<Rightarrow> Event \<Rightarrow> u64" where
  "Print_ts out event =
     (if OutputTS (flags out) = ''relative''
      then (case lastSeenSkb out (SAddr event) of
              Some last_ts \<Rightarrow> Timestamp event - last_ts
            | None \<Rightarrow> 0)
      else Timestamp event)"

text \<open>
  \<open>addr\<close>, lines 77-87: declared without a value, so 0, and assigned in the two cases of
  the switch, which has no default.
\<close>

definition Print_addr :: "Env \<Rightarrow> output_state \<Rightarrow> Event \<Rightarrow> u64" where
  "Print_addr env out event =
     (if GOARCH env = ''amd64''
      then (if \<not> kprobeMulti out then Addr event - 1 else Addr event)
      else if GOARCH env = ''arm64'' then Addr event
      else 0)"

text \<open>\<open>funcName\<close>, lines 88-98, from the value \<open>a\<close> of \<open>addr\<close>.\<close>

definition Print_funcName :: "Env \<Rightarrow> output_state \<Rightarrow> u64 \<Rightarrow> string" where
  "Print_funcName env out a =
     (case Addr2NameMap (addr2name out) a of
        Some ksym \<Rightarrow> name ksym
      | None \<Rightarrow>
          (let r = Addr2NameMap (addr2name out) (a - 4)
           in if GOARCH env = ''amd64'' \<and> r \<noteq> None then name (the r)
              else hex_literal a))"

text \<open>The text of the first \<open>Fprintf\<close>, lines 99-100.\<close>

definition Print_columns :: "Env \<Rightarrow> output_state \<Rightarrow> Event \<Rightarrow> string" where
  "Print_columns env out event =
     pad_left 18 (hex_literal (SAddr event)) @ '' '' @
     pad_left 6 (fmt_d (CPU event)) @ '' '' @
     pad_left 16 (''['' @ Print_execName env event @ '']'') @ '' '' @
     pad_left 24 (Print_funcName env out (Print_addr env out event))"

text \<open>The text of the timestamp column, line 102.\<close>

definition Print_ts_column :: "output_state \<Rightarrow> Event \<Rightarrow> string" where
  "Print_ts_column out event = '' '' @ pad_left 16 (fmt_d (uint (Print_ts out event)))"

text \<open>The text of the metadata block, line 107.\<close>

definition Print_meta :: "Meta \<Rightarrow> string" where
  "Print_meta m =
     '' netns='' @ fmt_d (Netns m) @ '' mark=0x'' @ fmt_x (Mark m) @
     '' ifindex='' @ fmt_d (Ifindex m) @ '' proto='' @ fmt_x (Proto m) @
     '' mtu='' @ fmt_d (MTU m) @ '' len='' @ fmt_d (Len m)"

text \<open>The text of the tuple block, lines 111-114.\<close>

definition Print_tuple :: "Env \<Rightarrow> Tuple \<Rightarrow> string" where
  "Print_tuple env t =
     '' '' @ addrToStr (IP_String env) (L3Proto t) (Saddr t) @ '':'' @
     fmt_d (uint (NetworkToHost16 (host_order env) (Sport t))) @ ''->'' @
     addrToStr (IP_String env) (L3Proto t) (Daddr t) @ '':'' @
     fmt_d (uint (NetworkToHost16 (host_order env) (Dport t))) @
     ''('' @ protoToStr (L4Proto t) @ '')''"

text \<open>The loop over \<open>stack.IPs\<close>, lines 121-125.\<close>

primrec Print_frames :: "Addr2Name \<Rightarrow> u64 list \<Rightarrow> Writer \<Rightarrow> Writer" where
  "Print_frames a2n [] w = w"
| "Print_frames a2n (ip # ips) w =
     Print_frames a2n ips (if 0 < ip then Fprintf w (newline @ findNearestSym a2n ip) else w)"

text \<open>The stack section, lines 117-128: the writer and the stack table after it.\<close>

definition Print_stack :: "output_state \<Rightarrow> Event \<Rightarrow> Writer \<Rightarrow> Writer \<times> StackData ebpf_Map" where
  "Print_stack out event w =
     (if OutputStack (flags out) \<and> 0 < PrintStackId event
      then (let id = (word_of_int (PrintStackId event) :: u32);
                (m, r) = Lookup (printStackMap out) id;
                w' = (case r of
                        Inr stack \<Rightarrow> Print_frames (addr2name out) (IPs stack) w
                      | Inl err \<Rightarrow> w);
                (m', _) = Delete m id
            in (w', m'))
      else (w, printStackMap out))"

text \<open>The buffer section, lines 130-135: the writer and the buffer table after it.\<close>

definition Print_skb :: "output_state \<Rightarrow> Event \<Rightarrow> Writer \<Rightarrow> Writer \<times> string ebpf_Map" where
  "Print_skb out event w =
     (if OutputSkb (flags out)
      then (let id = (word_of_int (PrintSkbId event) :: u32);
                (m, r) = LookupBytes (printSkbMap out) id
            in (case r of
                  Inr str \<Rightarrow> Fprintf w (newline @ str)
                | Inl err \<Rightarrow> w, m))
      else (w, printSkbMap out))"

definition Print :: "Env \<Rightarrow> output_state \<Rightarrow> Event \<Rightarrow> output_state" where
  "Print env out event =
     (let w1 = Fprintf (writer out) (Print_columns env out event);
          w2 = (if OutputTS (flags out) \<noteq> ''none''
                then Fprintf w1 (Print_ts_column out event) else w1);
          seen = (lastSeenSkb out)(SAddr event \<mapsto> Timestamp event);
          w3 = (if OutputMeta (flags out) then Fprintf w2 (Print_meta (Meta event)) else w2);
          w4 = (if OutputTuple (flags out) then Fprintf w3 (Print_tuple env (Tuple event)) else w3);
          (w5, stackMap) = Print_stack out event w4;
          (w6, skbMap) = Print_skb out event w5;
          w7 = Fprintf w6 newline
      in out\<lparr>lastSeenSkb := seen, printSkbMap := skbMap, printStackMap := stackMap,
              writer := w7\<rparr>)"

text \<open>
  The caller's loop (section 5: one consumer reads the events in order and renders them):
  the events of a list are printed one after the other.
\<close>

definition PrintAll :: "Env \<Rightarrow> output_state \<Rightarrow> Event list \<Rightarrow> output_state" where
  "PrintAll env out events = foldl (Print env) out events"

subsection \<open>What one call of \<open>Print\<close> writes\<close>

text \<open>
  The texts a section hands to the writer, read off the section itself by running it on
  a writer that has written nothing yet.
\<close>

definition fresh :: Writer where
  "fresh = \<lparr>sink = Stdout, written = []\<rparr>"

definition stack_lines :: "output_state \<Rightarrow> Event \<Rightarrow> string list" where
  "stack_lines out event = written (fst (Print_stack out event fresh))"

definition skb_lines :: "output_state \<Rightarrow> Event \<Rightarrow> string list" where
  "skb_lines out event = written (fst (Print_skb out event fresh))"

text \<open>
  Section 4.5 in its own words: ``one nearest-below symbol line per non-zero address, in
  stored order''.
\<close>

definition frames_text :: "Addr2Name \<Rightarrow> u64 list \<Rightarrow> string list" where
  "frames_text a2n ips = map (\<lambda>ip. newline @ findNearestSym a2n ip) (filter (\<lambda>ip. ip \<noteq> 0) ips)"

text \<open>
  Section 4.4 in its own words: ``the last timestamp seen for this event's flow key'',
  among the events of a list, if there is one.
\<close>

definition last_seen :: "Event list \<Rightarrow> u64 \<Rightarrow> u64 option" where
  "last_seen events k =
     (let seen = filter (\<lambda>e. SAddr e = k) events
      in if seen = [] then None else Some (Timestamp (last seen)))"

section \<open>Concrete inputs\<close>

text \<open>Dotted decimal, which is what \<open>net.IP.String\<close> gives for a 4-byte address.\<close>

fun dotted :: "u8 list \<Rightarrow> string" where
  "dotted [] = ''''"
| "dotted [b] = fmt_d (uint b)"
| "dotted (b # bs) = fmt_d (uint b) @ ''.'' @ dotted bs"

text \<open>A host of the given architecture on which only process 1, \<open>init\<close>, is running.\<close>

definition ex_env :: "string \<Rightarrow> Env" where
  "ex_env arch =
     \<lparr>GOARCH = arch, host_order = LittleEndian,
      FindProcess = (\<lambda>pid. if pid = 1 then (Some (Process ''init''), None) else (None, None)),
      IP_String = dotted, os_Create = (\<lambda>f. None)\<rparr>"

definition ex_flags :: "string \<Rightarrow> bool \<Rightarrow> bool \<Rightarrow> Flags" where
  "ex_flags ts stack skb =
     \<lparr>OutputTS = ts, OutputMeta = False, OutputTuple = False, OutputStack = stack,
      OutputSkb = skb, OutputFile = ''''\<rparr>"

definition ex_table :: "(u32 \<rightharpoonup> 'v) \<Rightarrow> 'v ebpf_Map" where
  "ex_table es = \<lparr>entries = es, closed = False, calls = []\<rparr>"

text \<open>A symbol table that holds only \<open>0x2000 \<rightarrow> foo\<close>.\<close>

definition ex_syms :: Addr2Name where
  "ex_syms =
     \<lparr>Addr2NameMap = [0x2000 \<mapsto> \<lparr>addr = 0x2000, name = ''foo''\<rparr>],
      findNearestSym = (\<lambda>ip. ''foo'')\<rparr>"

definition ex_out ::
  "Flags \<Rightarrow> bool \<Rightarrow> (u32 \<rightharpoonup> string) \<Rightarrow> (u32 \<rightharpoonup> StackData) \<Rightarrow> output_state" where
  "ex_out fl multi skbs stacks =
     \<lparr>flags = fl, lastSeenSkb = Map.empty, printSkbMap = ex_table skbs,
      printStackMap = ex_table stacks, addr2name = ex_syms, writer = os_Stdout,
      kprobeMulti = multi\<rparr>"

text \<open>An event of the given process, flow key, raw address, timestamp, buffer id and stack id.\<close>

definition ex_event :: "int \<Rightarrow> u64 \<Rightarrow> u64 \<Rightarrow> u64 \<Rightarrow> int \<Rightarrow> int \<Rightarrow> Event" where
  "ex_event pid k a t skb_id stack_id =
     \<lparr>PID = pid, CPU = 3, Addr = a, SAddr = k, Timestamp = t, PrintSkbId = skb_id,
      PrintStackId = stack_id,
      Meta = \<lparr>Netns = 1, Mark = 0, Ifindex = 2, Proto = 0x800, MTU = 1500, Len = 60\<rparr>,
      Tuple = \<lparr>Saddr = [10, 0, 0, 1, 0, 0, 0, 0, 0, 0, 0, 0, 0, 0, 0, 0],
               Daddr = [10, 0, 0, 2, 0, 0, 0, 0, 0, 0, 0, 0, 0, 0, 0, 0],
               Sport = 0x5000, Dport = 0xbb01, L3Proto = 0x800, L4Proto = 6\<rparr>\<rparr>"

section \<open>The writes of \<open>Print\<close> and its state\<close>

lemma written_Fprintf: "written (Fprintf w s) = written w @ [s]"
  by (simp add: Fprintf_def)

text \<open>The loop writes one line for each address that is not 0, in the order of the array.\<close>

lemma written_Print_frames:
  "written (Print_frames a2n ips w) = written w @ frames_text a2n ips"
proof (induction ips arbitrary: w)
  case Nil
  show ?case by (simp add: frames_text_def)
next
  case (Cons ip ips)
  have nz: "(0 < ip) = (ip \<noteq> 0)" by (simp add: word_neq_0_conv)
  show ?case
    using Cons.IH by (simp add: frames_text_def written_Fprintf nz)
qed

lemma written_Print_stack:
  "written (fst (Print_stack out event w)) = written w @ stack_lines out event"
  by (simp add: Print_stack_def stack_lines_def fresh_def Lookup_def Delete_def Let_def
      written_Print_frames split: option.splits)

lemma written_Print_skb:
  "written (fst (Print_skb out event w)) = written w @ skb_lines out event"
  by (simp add: Print_skb_def skb_lines_def fresh_def LookupBytes_def Let_def
      written_Fprintf split: option.splits)

text \<open>
  One call of \<open>Print\<close> appends to what was written before: the fixed columns, the
  timestamp column, the metadata and tuple blocks, the stack lines, the buffer text and
  the end of the line.
\<close>

lemma Print_written:
  "written (writer (Print env out event)) =
     written (writer out) @ [Print_columns env out event] @
     (if OutputTS (flags out) \<noteq> ''none'' then [Print_ts_column out event] else []) @
     (if OutputMeta (flags out) then [Print_meta (Meta event)] else []) @
     (if OutputTuple (flags out) then [Print_tuple env (Tuple event)] else []) @
     stack_lines out event @ skb_lines out event @ [newline]"
  by (simp add: Print_def Let_def split_beta written_Fprintf written_Print_stack
      written_Print_skb)

lemma Print_first_write:
  "written (writer (Print env out event)) ! length (written (writer out)) =
     Print_columns env out event"
  by (simp add: Print_written)

lemma Print_second_write:
  "OutputTS (flags out) \<noteq> ''none'' \<Longrightarrow>
   written (writer (Print env out event)) ! Suc (length (written (writer out))) =
     Print_ts_column out event"
  by (simp add: Print_written nth_append)

lemma Print_lastSeenSkb:
  "lastSeenSkb (Print env out event) = (lastSeenSkb out)(SAddr event \<mapsto> Timestamp event)"
  by (simp add: Print_def Let_def split_beta)

lemma Print_flags: "flags (Print env out event) = flags out"
  by (simp add: Print_def Let_def split_beta)

lemma PrintAll_flags: "flags (PrintAll env out events) = flags out"
  unfolding PrintAll_def by (induction events arbitrary: out) (simp_all add: Print_flags)

lemma PrintAll_snoc:
  "PrintAll env out (events @ [e]) = Print env (PrintAll env out events) e"
  by (simp add: PrintAll_def)

lemma last_seen_Nil: "last_seen [] k = None"
  by (simp add: last_seen_def)

lemma last_seen_snoc:
  "last_seen (events @ [e]) k = (if SAddr e = k then Some (Timestamp e) else last_seen events k)"
  by (simp add: last_seen_def Let_def)

text \<open>
  After a run of events the clock holds, for each flow key, the timestamp of the last
  event of the run with that key, and what it held before for the keys the run did not see.
\<close>

lemma PrintAll_lastSeenSkb:
  "lastSeenSkb (PrintAll env out events) k =
     (case last_seen events k of None \<Rightarrow> lastSeenSkb out k | Some t \<Rightarrow> Some t)"
proof (induction events rule: rev_induct)
  case Nil
  show ?case by (simp add: PrintAll_def last_seen_Nil)
next
  case (snoc e events)
  show ?case
    using snoc.IH by (simp add: PrintAll_snoc Print_lastSeenSkb last_seen_snoc)
qed

section \<open>The L4 protocol tag\<close>

text \<open>
  Claim C7. The L4 protocol tag renders as: 6 as \<open>tcp\<close>, 17 as \<open>udp\<close>, 1 as \<open>icmp\<close>, 58 as
  \<open>icmp6\<close>, and every other value as the empty string. \<open>protoToStr\<close> returns a string for
  every tag: it has no error result.
\<close>

theorem protoToStr_table:
  "protoToStr 6 = ''tcp'' \<and> protoToStr 17 = ''udp'' \<and> protoToStr 1 = ''icmp'' \<and>
   protoToStr 58 = ''icmp6'' \<and>
   (p \<notin> {6, 17, 1, 58} \<longrightarrow> protoToStr p = '''')"
  by (simp add: protoToStr_def IPPROTO_TCP_def IPPROTO_UDP_def IPPROTO_ICMP_def
      IPPROTO_ICMPV6_def)

theorem protoToStr_table_witness:
  "(47 :: u8) \<notin> {6, 17, 1, 58} \<and> protoToStr 47 = '''' \<and> protoToStr 6 = ''tcp''"
  using protoToStr_table [of 47] by simp

section \<open>Evaluating texts and concrete inputs\<close>

lemma replicate_num: "replicate (numeral k) x = x # replicate (pred_numeral k) x"
  by (simp add: numeral_eq_Suc)

text \<open>An ASCII character is a rune of one byte, so an ASCII text has as many runes as bytes.\<close>

lemma RuneCount_ascii_Cons:
  "(of_char c :: nat) < 128 \<Longrightarrow> RuneCountInString (c # cs) = Suc (RuneCountInString cs)"
  by (simp add: RuneCountInString.simps rune_width_def)

lemma RuneCount_ascii:
  "\<forall>c \<in> set s. (of_char c :: nat) < 128 \<Longrightarrow> RuneCountInString s = length s"
  by (induction s) (simp_all add: RuneCount_ascii_Cons)

lemmas rune_eval = RuneCountInString.simps rune_width_def lead_size_def accept_lo_def
  accept_hi_def

text \<open>
  A name of two bytes that are one rune (\<open>0xC3 0xA9\<close>, e with an acute accent) is padded
  as one rune: in brackets it counts 3 and gets 13 blanks in the process column.
\<close>

lemma pad_left_counts_runes:
  "RuneCountInString [CHR 0xC3, CHR 0xA9] = 1 \<and>
   pad_left 16 (''['' @ [CHR 0xC3, CHR 0xA9] @ '']'') =
     replicate 13 CHR '' '' @ ''['' @ [CHR 0xC3, CHR 0xA9] @ '']''"
  by (simp add: pad_left_def rune_eval)

lemmas fmt_eval = replicate_num fresh_def hex_literal_def fmt_x_def fmt_d_def fmt_int_def
  digits_of.simps digit_char_def pad_left_def RuneCount_ascii_Cons newline_def

lemmas ex_defs = ex_env_def ex_out_def ex_event_def ex_flags_def ex_table_def ex_syms_def
  os_Stdout_def

lemma hex_literal_0: "hex_literal 0 = ''0x0''"
  by (simp add: fmt_eval)

lemma hex_literal_0x2004: "hex_literal 0x2004 = ''0x2004''"
  by (simp add: fmt_eval)

section \<open>The address used for the symbol lookup\<close>

text \<open>
  Claim C2. The address \<open>Print\<close> looks up in the symbol table is a function of the raw
  address, the architecture and the attachment mechanism: on amd64 with single-probe
  attachment (\<open>kprobeMulti\<close> false) it is the raw address minus 1, on amd64 with
  bulk-probe attachment it is the raw address, on arm64 it is the raw address for either
  mechanism. \<open>Print_addr\<close> is what lines 77-87 leave in \<open>addr\<close>, and \<open>Print_columns\<close>
  resolves the function name from it.
\<close>

theorem Print_addr_table:
  "(GOARCH env = ''amd64'' \<and> \<not> kprobeMulti out \<longrightarrow> Print_addr env out event = Addr event - 1) \<and>
   (GOARCH env = ''amd64'' \<and> kprobeMulti out \<longrightarrow> Print_addr env out event = Addr event) \<and>
   (GOARCH env = ''arm64'' \<longrightarrow> Print_addr env out event = Addr event)"
  by (simp add: Print_addr_def)

theorem Print_addr_table_witness:
  "GOARCH (ex_env ''amd64'') = ''amd64'' \<and> GOARCH (ex_env ''arm64'') = ''arm64'' \<and>
   \<not> kprobeMulti (ex_out (ex_flags ''none'' False False) False Map.empty Map.empty) \<and>
   kprobeMulti (ex_out (ex_flags ''none'' False False) True Map.empty Map.empty) \<and>
   Print_addr (ex_env ''amd64'')
     (ex_out (ex_flags ''none'' False False) False Map.empty Map.empty)
     (ex_event 1 0xAB 0x1000 100 0 0) = 0xfff \<and>
   Print_addr (ex_env ''amd64'')
     (ex_out (ex_flags ''none'' False False) True Map.empty Map.empty)
     (ex_event 1 0xAB 0x1000 100 0 0) = 0x1000 \<and>
   Print_addr (ex_env ''arm64'')
     (ex_out (ex_flags ''none'' False False) False Map.empty Map.empty)
     (ex_event 1 0xAB 0x1000 100 0 0) = 0x1000 \<and>
   Print_addr (ex_env ''arm64'')
     (ex_out (ex_flags ''none'' False False) True Map.empty Map.empty)
     (ex_event 1 0xAB 0x1000 100 0 0) = 0x1000"
  using
    Print_addr_table [of "ex_env ''amd64''"
      "ex_out (ex_flags ''none'' False False) False Map.empty Map.empty"
      "ex_event 1 0xAB 0x1000 100 0 0"]
    Print_addr_table [of "ex_env ''amd64''"
      "ex_out (ex_flags ''none'' False False) True Map.empty Map.empty"
      "ex_event 1 0xAB 0x1000 100 0 0"]
    Print_addr_table [of "ex_env ''arm64''"
      "ex_out (ex_flags ''none'' False False) False Map.empty Map.empty"
      "ex_event 1 0xAB 0x1000 100 0 0"]
    Print_addr_table [of "ex_env ''arm64''"
      "ex_out (ex_flags ''none'' False False) True Map.empty Map.empty"
      "ex_event 1 0xAB 0x1000 100 0 0"]
  by (simp add: ex_env_def ex_out_def ex_event_def)

text \<open>
  Claim C10. On an architecture other than amd64 and arm64 the switch assigns nothing, so
  the address that is looked up is 0 whatever the raw address of the event, and the
  function name is what address 0 resolves to: the symbol at 0 if the table has one, and
  the literal \<open>0x0\<close> otherwise (the lookup of \<open>addr - 4\<close> counts on amd64 only).
\<close>

theorem Print_addr_other_arch:
  "GOARCH env \<noteq> ''amd64'' \<Longrightarrow> GOARCH env \<noteq> ''arm64'' \<Longrightarrow>
   Print_addr env out event = 0 \<and>
   Print_funcName env out (Print_addr env out event) =
     (case Addr2NameMap (addr2name out) 0 of Some ksym \<Rightarrow> name ksym | None \<Rightarrow> ''0x0'')"
  by (simp add: Print_addr_def Print_funcName_def Let_def hex_literal_0 split: option.splits)

theorem Print_addr_other_arch_witness:
  "GOARCH (ex_env ''riscv64'') \<noteq> ''amd64'' \<and> GOARCH (ex_env ''riscv64'') \<noteq> ''arm64'' \<and>
   Print_addr (ex_env ''riscv64'')
     (ex_out (ex_flags ''none'' False False) False Map.empty Map.empty)
     (ex_event 1 0xAB 0x2000 100 0 0) = 0 \<and>
   Print_funcName (ex_env ''riscv64'')
     (ex_out (ex_flags ''none'' False False) False Map.empty Map.empty)
     (Print_addr (ex_env ''riscv64'')
        (ex_out (ex_flags ''none'' False False) False Map.empty Map.empty)
        (ex_event 1 0xAB 0x2000 100 0 0)) = ''0x0''"
proof -
  have arch: "GOARCH (ex_env ''riscv64'') \<noteq> ''amd64''" "GOARCH (ex_env ''riscv64'') \<noteq> ''arm64''"
    by (simp_all add: ex_env_def)
  have none: "Addr2NameMap
      (addr2name (ex_out (ex_flags ''none'' False False) False Map.empty Map.empty)) 0 = None"
    by (simp add: ex_out_def ex_syms_def)
  have "Print_addr (ex_env ''riscv64'')
     (ex_out (ex_flags ''none'' False False) False Map.empty Map.empty)
     (ex_event 1 0xAB 0x2000 100 0 0) = 0 \<and>
   Print_funcName (ex_env ''riscv64'')
     (ex_out (ex_flags ''none'' False False) False Map.empty Map.empty)
     (Print_addr (ex_env ''riscv64'')
        (ex_out (ex_flags ''none'' False False) False Map.empty Map.empty)
        (ex_event 1 0xAB 0x2000 100 0 0)) = ''0x0''"
    by (rule Print_addr_other_arch [OF arch,
        of "ex_out (ex_flags ''none'' False False) False Map.empty Map.empty"
           "ex_event 1 0xAB 0x2000 100 0 0", unfolded none option.case])
  then show ?thesis
    using arch by blast
qed

section \<open>Symbol resolution\<close>

text \<open>
  Claim C3. The function name is resolved from the address \<open>a\<close> that is looked up, first
  match wins: the symbol at exactly \<open>a\<close>; else, on amd64 only, the symbol at exactly
  \<open>a - 4\<close>; else \<open>a\<close> as a hexadecimal literal. With a symbol table that holds only
  \<open>0x2000 \<rightarrow> foo\<close>, the address \<open>0x2004\<close> resolves to \<open>foo\<close> on amd64 and to the literal
  \<open>0x2004\<close> on arm64.
\<close>

theorem Print_funcName_order:
  "(Addr2NameMap (addr2name out) a = Some k \<longrightarrow> Print_funcName env out a = name k) \<and>
   (Addr2NameMap (addr2name out) a = None \<and> GOARCH env = ''amd64'' \<and>
    Addr2NameMap (addr2name out) (a - 4) = Some k \<longrightarrow> Print_funcName env out a = name k) \<and>
   (Addr2NameMap (addr2name out) a = None \<and>
    (GOARCH env \<noteq> ''amd64'' \<or> Addr2NameMap (addr2name out) (a - 4) = None) \<longrightarrow>
      Print_funcName env out a = hex_literal a) \<and>
   (Addr2NameMap (addr2name out) = [0x2000 \<mapsto> k] \<and> name k = ''foo'' \<longrightarrow>
      (GOARCH env = ''amd64'' \<longrightarrow> Print_funcName env out 0x2004 = ''foo'') \<and>
      (GOARCH env = ''arm64'' \<longrightarrow> Print_funcName env out 0x2004 = ''0x2004''))"
  by (auto simp add: Print_funcName_def Let_def hex_literal_0x2004)

theorem Print_funcName_order_witness:
  "Addr2NameMap (addr2name (ex_out (ex_flags ''none'' False False) True Map.empty Map.empty)) =
     [0x2000 \<mapsto> \<lparr>addr = 0x2000, name = ''foo''\<rparr>] \<and>
   Print_funcName (ex_env ''amd64'')
     (ex_out (ex_flags ''none'' False False) True Map.empty Map.empty) 0x2000 = ''foo'' \<and>
   Print_funcName (ex_env ''amd64'')
     (ex_out (ex_flags ''none'' False False) True Map.empty Map.empty) 0x2004 = ''foo'' \<and>
   Print_funcName (ex_env ''arm64'')
     (ex_out (ex_flags ''none'' False False) True Map.empty Map.empty) 0x2004 = ''0x2004'' \<and>
   Print_funcName (ex_env ''amd64'')
     (ex_out (ex_flags ''none'' False False) True Map.empty Map.empty) 0x2008 = ''0x2008''"
proof -
  let ?out = "ex_out (ex_flags ''none'' False False) True Map.empty Map.empty"
  let ?k = "\<lparr>addr = 0x2000, name = ''foo''\<rparr>"
  have tab: "Addr2NameMap (addr2name ?out) = [0x2000 \<mapsto> ?k]"
    by (simp add: ex_out_def ex_syms_def)
  have arch: "GOARCH (ex_env ''amd64'') = ''amd64''" "GOARCH (ex_env ''arm64'') = ''arm64''"
    by (simp_all add: ex_env_def)
  have exact: "Print_funcName (ex_env ''amd64'') ?out 0x2000 = ''foo''"
    using Print_funcName_order [of ?out "0x2000" ?k "ex_env ''amd64''"] by (simp add: tab)
  have ibt: "Print_funcName (ex_env ''amd64'') ?out 0x2004 = ''foo''"
    using Print_funcName_order [of ?out "0x2004" ?k "ex_env ''amd64''"] by (simp add: tab arch)
  have arm: "Print_funcName (ex_env ''arm64'') ?out 0x2004 = ''0x2004''"
    using Print_funcName_order [of ?out "0x2004" ?k "ex_env ''arm64''"]
    by (simp add: tab arch hex_literal_0x2004)
  have "hex_literal 0x2008 = ''0x2008''"
    by (simp add: fmt_eval)
  then have lit: "Print_funcName (ex_env ''amd64'') ?out 0x2008 = ''0x2008''"
    using Print_funcName_order [of ?out "0x2008" ?k "ex_env ''amd64''"] by (simp add: tab arch)
  show ?thesis
    using tab exact ibt arm lit by simp
qed

section \<open>The state after \<open>Print\<close>\<close>

lemma Print_addr2name: "addr2name (Print env out event) = addr2name out"
  by (simp add: Print_def Let_def split_beta)

lemma Print_kprobeMulti: "kprobeMulti (Print env out event) = kprobeMulti out"
  by (simp add: Print_def Let_def split_beta)

lemma Print_addr_after: "Print_addr env (Print env' out e') event = Print_addr env out event"
  by (simp add: Print_addr_def Print_kprobeMulti)

lemma Print_funcName_after: "Print_funcName env (Print env' out e') a = Print_funcName env out a"
  unfolding Print_funcName_def Print_addr2name by (rule refl)

lemma Print_columns_after:
  "Print_columns env (Print env' out e') event = Print_columns env out event"
  by (simp add: Print_columns_def Print_funcName_after Print_addr_after)

text \<open>What the two sections do to their tables, whatever the lookup gives.\<close>

lemma stack_table_after:
  "snd (Print_stack out event w) =
     (if OutputStack (flags out) \<and> 0 < PrintStackId event
      then (printStackMap out)
             \<lparr>entries := (if closed (printStackMap out) then entries (printStackMap out)
                          else (entries (printStackMap out))
                                 (word_of_int (PrintStackId event) := None)),
              calls := calls (printStackMap out) @
                         [LookupCall (word_of_int (PrintStackId event)),
                          DeleteCall (word_of_int (PrintStackId event))]\<rparr>
      else printStackMap out)"
  by (simp add: Print_stack_def Lookup_def Delete_def Let_def)

lemma skb_table_after:
  "snd (Print_skb out event w) =
     (if OutputSkb (flags out)
      then (printSkbMap out)
             \<lparr>calls := calls (printSkbMap out) @
                         [LookupBytesCall (word_of_int (PrintSkbId event))]\<rparr>
      else printSkbMap out)"
  by (simp add: Print_skb_def LookupBytes_def Let_def)

lemma Print_printStackMap:
  "printStackMap (Print env out event) = snd (Print_stack out event fresh)"
  by (simp add: Print_def Let_def split_beta stack_table_after)

lemma Print_printSkbMap:
  "printSkbMap (Print env out event) = snd (Print_skb out event fresh)"
  by (simp add: Print_def Let_def split_beta skb_table_after)

text \<open>What the two sections write, by the state of their tables.\<close>

lemma stack_lines_eq:
  "stack_lines out event =
     (if OutputStack (flags out) \<and> 0 < PrintStackId event \<and> \<not> closed (printStackMap out)
      then (case entries (printStackMap out) (word_of_int (PrintStackId event)) of
              Some stack \<Rightarrow> frames_text (addr2name out) (IPs stack)
            | None \<Rightarrow> [])
      else [])"
  by (simp add: stack_lines_def Print_stack_def Lookup_def Delete_def Let_def fresh_def
      written_Print_frames split: option.splits)

lemma skb_lines_eq:
  "skb_lines out event =
     (if OutputSkb (flags out) \<and> \<not> closed (printSkbMap out)
      then (case entries (printSkbMap out) (word_of_int (PrintSkbId event)) of
              Some v \<Rightarrow> [newline @ v]
            | None \<Rightarrow> [newline])
      else [])"
  by (simp add: skb_lines_def Print_skb_def LookupBytes_def Let_def fresh_def
      written_Fprintf split: option.splits)

section \<open>The per-flow clock\<close>

text \<open>
  Claim C1. In relative timestamp mode the timestamp that is rendered for an event is 0
  when the clock has no entry for the event's flow key, and otherwise the event's raw
  timestamp minus the timestamp stored for that key (in 64-bit arithmetic); it is the
  second text of the record. Over a run of events that starts from a given state, this is
  0 for the first event of a flow key the clock did not know, and for every later event
  the difference to the timestamp of the event of that key just before it. In every
  timestamp mode \<open>Print\<close> then stores the event's raw timestamp under its flow key, over
  what was there.
\<close>

theorem Print_relative_clock:
  "(OutputTS (flags out) = ''relative'' \<longrightarrow>
      Print_ts out event =
        (case lastSeenSkb out (SAddr event) of None \<Rightarrow> 0 | Some t \<Rightarrow> Timestamp event - t) \<and>
      written (writer (Print env out event)) ! Suc (length (written (writer out))) =
        '' '' @ pad_left 16 (fmt_d (uint (Print_ts out event)))) \<and>
   (OutputTS (flags out) = ''relative'' \<longrightarrow>
      Print_ts (PrintAll env out events) event =
        (case last_seen events (SAddr event) of
           None \<Rightarrow> (case lastSeenSkb out (SAddr event) of
                      None \<Rightarrow> 0 | Some t \<Rightarrow> Timestamp event - t)
         | Some t \<Rightarrow> Timestamp event - t)) \<and>
   lastSeenSkb (Print env out event) = (lastSeenSkb out)(SAddr event \<mapsto> Timestamp event)"
proof (intro conjI impI)
  assume rel: "OutputTS (flags out) = ''relative''"
  show "Print_ts out event =
      (case lastSeenSkb out (SAddr event) of None \<Rightarrow> 0 | Some t \<Rightarrow> Timestamp event - t)"
    using rel by (simp add: Print_ts_def split: option.splits)
  have "OutputTS (flags out) \<noteq> ''none''" using rel by simp
  then show "written (writer (Print env out event)) ! Suc (length (written (writer out))) =
      '' '' @ pad_left 16 (fmt_d (uint (Print_ts out event)))"
    by (simp add: Print_second_write Print_ts_column_def)
  show "Print_ts (PrintAll env out events) event =
      (case last_seen events (SAddr event) of
         None \<Rightarrow> (case lastSeenSkb out (SAddr event) of
                    None \<Rightarrow> 0 | Some t \<Rightarrow> Timestamp event - t)
       | Some t \<Rightarrow> Timestamp event - t)"
    using rel
    by (simp add: Print_ts_def PrintAll_flags PrintAll_lastSeenSkb split: option.splits)
next
  show "lastSeenSkb (Print env out event) = (lastSeenSkb out)(SAddr event \<mapsto> Timestamp event)"
    by (rule Print_lastSeenSkb)
qed

theorem Print_relative_clock_witness:
  "OutputTS (flags (ex_out (ex_flags ''relative'' False False) True Map.empty Map.empty)) =
     ''relative'' \<and>
   Print_ts (ex_out (ex_flags ''relative'' False False) True Map.empty Map.empty)
     (ex_event 1 0xAB 0x2000 100 0 0) = 0 \<and>
   Print_ts
     (PrintAll (ex_env ''amd64'')
        (ex_out (ex_flags ''relative'' False False) True Map.empty Map.empty)
        [ex_event 1 0xAB 0x2000 100 0 0])
     (ex_event 1 0xAB 0x2000 150 0 0) = 50 \<and>
   Print_ts
     (PrintAll (ex_env ''amd64'')
        (ex_out (ex_flags ''relative'' False False) True Map.empty Map.empty)
        [ex_event 1 0xAB 0x2000 100 0 0, ex_event 1 0xAB 0x2000 150 0 0])
     (ex_event 1 0xAB 0x2000 400 0 0) = 250 \<and>
   lastSeenSkb
     (Print (ex_env ''amd64'')
        (ex_out (ex_flags ''relative'' False False) True Map.empty Map.empty)
        (ex_event 1 0xAB 0x2000 100 0 0)) = [0xAB \<mapsto> 100]"
proof -
  let ?env = "ex_env ''amd64''"
  let ?out = "ex_out (ex_flags ''relative'' False False) True Map.empty Map.empty"
  have rel: "OutputTS (flags ?out) = ''relative''"
    by (simp add: ex_out_def ex_flags_def)
  have seen: "lastSeenSkb ?out = Map.empty"
    by (simp add: ex_out_def)
  have ev: "SAddr (ex_event 1 0xAB 0x2000 t 0 0) = 0xAB"
    "Timestamp (ex_event 1 0xAB 0x2000 t 0 0) = t" for t
    by (simp_all add: ex_event_def)
  have t1: "Print_ts ?out (ex_event 1 0xAB 0x2000 100 0 0) = 0"
    using Print_relative_clock [of ?out "ex_event 1 0xAB 0x2000 100 0 0" ?env "[]"]
    by (simp add: rel seen ev)
  have t2: "Print_ts (PrintAll ?env ?out [ex_event 1 0xAB 0x2000 100 0 0])
      (ex_event 1 0xAB 0x2000 150 0 0) = 50"
    using Print_relative_clock [of ?out "ex_event 1 0xAB 0x2000 150 0 0" ?env
        "[ex_event 1 0xAB 0x2000 100 0 0]"]
    by (simp add: rel seen ev last_seen_def)
  have t3: "Print_ts
      (PrintAll ?env ?out [ex_event 1 0xAB 0x2000 100 0 0, ex_event 1 0xAB 0x2000 150 0 0])
      (ex_event 1 0xAB 0x2000 400 0 0) = 250"
    using Print_relative_clock [of ?out "ex_event 1 0xAB 0x2000 400 0 0" ?env
        "[ex_event 1 0xAB 0x2000 100 0 0, ex_event 1 0xAB 0x2000 150 0 0]"]
    by (simp add: rel seen ev last_seen_def)
  have st: "lastSeenSkb (Print ?env ?out (ex_event 1 0xAB 0x2000 100 0 0)) = [0xAB \<mapsto> 100]"
    using Print_relative_clock [of ?out "ex_event 1 0xAB 0x2000 100 0 0" ?env "[]"]
    by (simp add: seen ev)
  show ?thesis
    using rel t1 t2 t3 st by simp
qed

text \<open>
  The scenario of section 8: the events of flow key \<open>0xAB\<close> with the raw timestamps 100,
  150 and 400 are rendered, in relative mode, with the timestamps 0, 50 and 250.
\<close>

lemma relative_scenario:
  "written (writer (PrintAll (ex_env ''amd64'')
      (ex_out (ex_flags ''relative'' False False) True Map.empty Map.empty)
      [ex_event 1 0xAB 0x2000 100 0 0, ex_event 1 0xAB 0x2000 150 0 0,
       ex_event 1 0xAB 0x2000 400 0 0])) =
   [''              0xab      3           [init]                      foo'',
    ''                0'', [CHR 0x0A],
    ''              0xab      3           [init]                      foo'',
    ''               50'', [CHR 0x0A],
    ''              0xab      3           [init]                      foo'',
    ''              250'', [CHR 0x0A]]"
proof -
  let ?env = "ex_env ''amd64''"
  let ?out = "ex_out (ex_flags ''relative'' False False) True Map.empty Map.empty"
  have cols: "Print_columns ?env ?out (ex_event 1 0xAB 0x2000 t 0 0) =
      ''              0xab      3           [init]                      foo''" for t
    by (simp add: Print_columns_def Print_execName_def Print_funcName_def Print_addr_def
        fmt_eval ex_defs)
  have fl: "OutputTS (flags ?out) = ''relative''" "\<not> OutputMeta (flags ?out)"
    "\<not> OutputTuple (flags ?out)" "\<not> OutputStack (flags ?out)" "\<not> OutputSkb (flags ?out)"
    by (simp_all add: ex_out_def ex_flags_def)
  have ev [simp]: "SAddr (ex_event 1 0xAB 0x2000 t 0 0) = 0xAB"
     "Timestamp (ex_event 1 0xAB 0x2000 t 0 0) = t" for t
    by (simp_all add: ex_event_def)
  have seen: "lastSeenSkb ?out = Map.empty" by (simp add: ex_out_def)
  have wr: "written (writer ?out) = []" by (simp add: ex_out_def os_Stdout_def)
  have t1: "Print_ts ?out (ex_event 1 0xAB 0x2000 100 0 0) = 0"
    by (simp add: Print_ts_def fl seen)
  have t2: "Print_ts (Print ?env ?out (ex_event 1 0xAB 0x2000 100 0 0))
      (ex_event 1 0xAB 0x2000 150 0 0) = 50"
    by (simp add: Print_ts_def Print_flags Print_lastSeenSkb fl seen)
  have t3: "Print_ts (Print ?env (Print ?env ?out (ex_event 1 0xAB 0x2000 100 0 0))
      (ex_event 1 0xAB 0x2000 150 0 0)) (ex_event 1 0xAB 0x2000 400 0 0) = 250"
    by (simp add: Print_ts_def Print_flags Print_lastSeenSkb fl seen)
  have d: "fmt_d 0 = ''0''" "fmt_d 50 = ''50''" "fmt_d 250 = ''250''"
    by (simp_all add: fmt_d_def fmt_int_def digits_of.simps digit_char_def)
  show ?thesis
    by (simp add: PrintAll_def Print_written Print_columns_after cols Print_flags fl
        wr stack_lines_eq skb_lines_eq Print_ts_column_def t1 t2 t3 d
        replicate_num pad_left_def RuneCount_ascii_Cons newline_def)
qed

text \<open>
  A renderer made by \<open>NewOutput\<close> starts with an empty clock, so in relative mode the
  first event of every flow key is rendered with timestamp 0 and every later one with the
  difference to the event of that key before it.
\<close>

lemma NewOutput_lastSeenSkb:
  "NewOutput env fl skbMap stackMap a2n multi = Inr out \<Longrightarrow>
   lastSeenSkb out = Map.empty \<and> flags out = fl"
  by (auto simp add: NewOutput_def Let_def split: if_splits option.splits)

lemma NewOutput_relative_run:
  assumes "NewOutput env fl skbMap stackMap a2n multi = Inr out"
    and "OutputTS fl = ''relative''"
  shows "Print_ts (PrintAll env out events) event =
     (case last_seen events (SAddr event) of None \<Rightarrow> 0 | Some t \<Rightarrow> Timestamp event - t)"
proof -
  have "lastSeenSkb out = Map.empty" and "OutputTS (flags out) = ''relative''"
    using assms NewOutput_lastSeenSkb [OF assms(1)] by simp_all
  then show ?thesis
    by (simp add: Print_ts_def PrintAll_flags PrintAll_lastSeenSkb split: option.splits)
qed

section \<open>The process column\<close>

text \<open>
  Claim C9. When the process lookup of an event gives no process, or fails, the process
  column is the placeholder \<open><empty>\<close> in brackets. \<open>Print\<close> has no error result, and
  it does exactly what it does for an event whose process is found and is called
  \<open><empty>\<close>: the rest of the record and of the state is not affected by the miss.
\<close>

theorem Print_missing_process:
  assumes "fst (FindProcess env (PID event)) = None \<or> snd (FindProcess env (PID event)) \<noteq> None"
  shows "Print_execName env event = ''<empty>'' \<and>
         written (writer (Print env out event)) ! length (written (writer out)) =
           pad_left 18 (hex_literal (SAddr event)) @ '' '' @
           pad_left 6 (fmt_d (CPU event)) @ '' '' @
           ''       [<empty>]'' @ '' '' @
           pad_left 24 (Print_funcName env out (Print_addr env out event)) \<and>
         Print env out event =
           Print (env\<lparr>FindProcess := \<lambda>pid. (Some (Process ''<empty>''), None)\<rparr>) out event"
proof -
  have name: "Print_execName env event = ''<empty>''"
    using assms by (auto simp add: Print_execName_def split_beta)
  let ?env = "env\<lparr>FindProcess := \<lambda>pid. (Some (Process ''<empty>''), None)\<rparr>"
  have name': "Print_execName ?env event = ''<empty>''"
    by (simp add: Print_execName_def)
  have a: "Print_addr ?env out event = Print_addr env out event"
    by (simp add: Print_addr_def)
  have f: "Print_funcName ?env out b = Print_funcName env out b" for b
    by (simp add: Print_funcName_def Let_def split: option.splits)
  have cols: "Print_columns env out event = Print_columns ?env out event"
    by (simp add: Print_columns_def name name' a f)
  have tup: "Print_tuple env (Tuple event) = Print_tuple ?env (Tuple event)"
    by (simp add: Print_tuple_def)
  have same: "Print env out event = Print ?env out event"
    unfolding Print_def cols tup by (rule refl)
  have "written (writer (Print env out event)) ! length (written (writer out)) =
           pad_left 18 (hex_literal (SAddr event)) @ '' '' @
           pad_left 6 (fmt_d (CPU event)) @ '' '' @
           ''       [<empty>]'' @ '' '' @
           pad_left 24 (Print_funcName env out (Print_addr env out event))"
    by (simp add: Print_first_write Print_columns_def name pad_left_def RuneCount_ascii_Cons
        replicate_num)
  then show ?thesis
    using name same by simp
qed

theorem Print_missing_process_witness:
  "fst (FindProcess (ex_env ''amd64'') (PID (ex_event 4242 0xAB 0x2000 100 0 0))) = None \<and>
   Print_execName (ex_env ''amd64'') (ex_event 4242 0xAB 0x2000 100 0 0) = ''<empty>'' \<and>
   written (writer (Print (ex_env ''amd64'')
      (ex_out (ex_flags ''none'' False False) True Map.empty Map.empty)
      (ex_event 4242 0xAB 0x2000 100 0 0))) ! 0 =
     ''              0xab      3        [<empty>]                      foo''"
proof -
  let ?env = "ex_env ''amd64''"
  let ?out = "ex_out (ex_flags ''none'' False False) True Map.empty Map.empty"
  let ?ev = "ex_event 4242 0xAB 0x2000 100 0 0"
  have miss: "fst (FindProcess ?env (PID ?ev)) = None"
    by (simp add: ex_env_def ex_event_def)
  then have hyp: "fst (FindProcess ?env (PID ?ev)) = None \<or> snd (FindProcess ?env (PID ?ev)) \<noteq> None"
    by (rule disjI1)
  have wr: "length (written (writer ?out)) = 0"
    by (simp add: ex_out_def os_Stdout_def)
  have fn: "Print_funcName ?env ?out (Print_addr ?env ?out ?ev) = ''foo''"
    by (simp add: Print_funcName_def Print_addr_def ex_defs)
  have line: "pad_left 18 (hex_literal (SAddr ?ev)) @ '' '' @
       pad_left 6 (fmt_d (CPU ?ev)) @ '' '' @ ''       [<empty>]'' @ '' '' @
       pad_left 24 ''foo'' =
     ''              0xab      3        [<empty>]                      foo''"
    by (simp add: ex_event_def fmt_eval)
  show ?thesis
    using miss Print_missing_process [OF hyp, of ?out, unfolded wr fn line] by blast
qed

section \<open>The address that the record shows\<close>

text \<open>
  Claim C6, as the source has it. The claim says that the record shows the raw address
  of the event and never the address used for the lookup. \<open>Print\<close> formats \<open>addr\<close>, the
  address it looked up: on amd64 with single-probe attachment an event with the raw
  address \<open>0x1000\<close> and no matching symbol is rendered with \<open>0xfff\<close>.
\<close>

theorem record_shows_lookup_address:
  "hex_literal (Addr (ex_event 1 0xAB 0x1000 100 0 0)) = ''0x1000'' \<and>
   written (writer (Print (ex_env ''amd64'')
      (ex_out (ex_flags ''none'' False False) False Map.empty Map.empty)
      (ex_event 1 0xAB 0x1000 100 0 0))) =
   [''              0xab      3           [init]                    0xfff'', [CHR 0x0A]]"
proof -
  let ?env = "ex_env ''amd64''"
  let ?out = "ex_out (ex_flags ''none'' False False) False Map.empty Map.empty"
  let ?ev = "ex_event 1 0xAB 0x1000 100 0 0"
  have raw: "hex_literal (Addr ?ev) = ''0x1000''"
    by (simp add: ex_event_def fmt_eval)
  have cols: "Print_columns ?env ?out ?ev =
      ''              0xab      3           [init]                    0xfff''"
    by (simp add: Print_columns_def Print_execName_def Print_funcName_def Print_addr_def
        fmt_eval ex_defs)
  have fl: "OutputTS (flags ?out) = ''none''" "\<not> OutputMeta (flags ?out)"
    "\<not> OutputTuple (flags ?out)" "\<not> OutputStack (flags ?out)" "\<not> OutputSkb (flags ?out)"
    by (simp_all add: ex_out_def ex_flags_def)
  have wr: "written (writer ?out) = []"
    by (simp add: ex_out_def os_Stdout_def)
  have "written (writer (Print ?env ?out ?ev)) =
      [''              0xab      3           [init]                    0xfff'', [CHR 0x0A]]"
    by (simp add: Print_written cols fl wr stack_lines_eq skb_lines_eq newline_def)
  then show ?thesis
    using raw by simp
qed

text \<open>
  Claim C6, amended. When no symbol matches, the function column of the record is the
  address that was used for the symbol lookup, as a hexadecimal literal. On amd64 with
  single-probe attachment that is the raw address minus 1, not the raw address; on amd64
  with bulk-probe attachment and on arm64 it is equal to the raw address. Nothing else
  in the record depends on the raw address of the event: neither the process name nor
  what \<open>Print\<close> writes after the fixed columns.
\<close>

theorem Print_shows_lookup_address:
  assumes "Addr2NameMap (addr2name out) (Print_addr env out event) = None"
    and "GOARCH env = ''amd64'' \<longrightarrow>
         Addr2NameMap (addr2name out) (Print_addr env out event - 4) = None"
  shows "written (writer (Print env out event)) ! length (written (writer out)) =
           pad_left 18 (hex_literal (SAddr event)) @ '' '' @
           pad_left 6 (fmt_d (CPU event)) @ '' '' @
           pad_left 16 (''['' @ Print_execName env event @ '']'') @ '' '' @
           pad_left 24 (hex_literal (Print_addr env out event)) \<and>
         (GOARCH env = ''amd64'' \<and> \<not> kprobeMulti out \<longrightarrow>
            Print_addr env out event = Addr event - 1) \<and>
         (GOARCH env = ''amd64'' \<and> kprobeMulti out \<or> GOARCH env = ''arm64'' \<longrightarrow>
            Print_addr env out event = Addr event) \<and>
         Print_execName env (event\<lparr>Addr := a\<rparr>) = Print_execName env event \<and>
         tl (drop (length (written (writer out)))
               (written (writer (Print env out (event\<lparr>Addr := a\<rparr>))))) =
         tl (drop (length (written (writer out))) (written (writer (Print env out event))))"
proof -
  have fn: "Print_funcName env out (Print_addr env out event) =
      hex_literal (Print_addr env out event)"
    using assms by (auto simp add: Print_funcName_def Let_def)
  have first: "written (writer (Print env out event)) ! length (written (writer out)) =
           pad_left 18 (hex_literal (SAddr event)) @ '' '' @
           pad_left 6 (fmt_d (CPU event)) @ '' '' @
           pad_left 16 (''['' @ Print_execName env event @ '']'') @ '' '' @
           pad_left 24 (hex_literal (Print_addr env out event))"
    by (simp add: Print_first_write Print_columns_def fn)
  have single: "GOARCH env = ''amd64'' \<and> \<not> kprobeMulti out \<longrightarrow>
      Print_addr env out event = Addr event - 1"
    by (simp add: Print_addr_def)
  have raw: "GOARCH env = ''amd64'' \<and> kprobeMulti out \<or> GOARCH env = ''arm64'' \<longrightarrow>
      Print_addr env out event = Addr event"
    by (auto simp add: Print_addr_def)
  have proc: "Print_execName env (event\<lparr>Addr := a\<rparr>) = Print_execName env event"
    by (simp add: Print_execName_def)
  have ts: "Print_ts_column out (event\<lparr>Addr := a\<rparr>) = Print_ts_column out event"
    by (simp add: Print_ts_column_def Print_ts_def split: option.splits)
  have rest: "tl (drop (length (written (writer out)))
               (written (writer (Print env out (event\<lparr>Addr := a\<rparr>))))) =
         tl (drop (length (written (writer out))) (written (writer (Print env out event))))"
    by (simp add: Print_written ts stack_lines_eq skb_lines_eq)
  show ?thesis
    using first single raw proc rest by blast
qed

theorem Print_shows_lookup_address_witness:
  "Addr2NameMap (addr2name (ex_out (ex_flags ''none'' False False) False Map.empty Map.empty))
     (Print_addr (ex_env ''amd64'')
        (ex_out (ex_flags ''none'' False False) False Map.empty Map.empty)
        (ex_event 1 0xAB 0x1000 100 0 0)) = None \<and>
   Addr2NameMap (addr2name (ex_out (ex_flags ''none'' False False) False Map.empty Map.empty))
     (Print_addr (ex_env ''amd64'')
        (ex_out (ex_flags ''none'' False False) False Map.empty Map.empty)
        (ex_event 1 0xAB 0x1000 100 0 0) - 4) = None \<and>
   written (writer (Print (ex_env ''amd64'')
      (ex_out (ex_flags ''none'' False False) False Map.empty Map.empty)
      (ex_event 1 0xAB 0x1000 100 0 0))) ! 0 =
     ''              0xab      3           [init]                    0xfff'' \<and>
   Addr2NameMap (addr2name (ex_out (ex_flags ''none'' False False) False Map.empty Map.empty))
     (Print_addr (ex_env ''arm64'')
        (ex_out (ex_flags ''none'' False False) False Map.empty Map.empty)
        (ex_event 1 0xAB 0x1000 100 0 0)) = None \<and>
   Print_addr (ex_env ''arm64'')
     (ex_out (ex_flags ''none'' False False) False Map.empty Map.empty)
     (ex_event 1 0xAB 0x1000 100 0 0) = Addr (ex_event 1 0xAB 0x1000 100 0 0) \<and>
   written (writer (Print (ex_env ''arm64'')
      (ex_out (ex_flags ''none'' False False) False Map.empty Map.empty)
      (ex_event 1 0xAB 0x1000 100 0 0))) ! 0 =
     ''              0xab      3           [init]                   0x1000''"
proof -
  let ?env = "ex_env ''amd64''"
  let ?arm = "ex_env ''arm64''"
  let ?out = "ex_out (ex_flags ''none'' False False) False Map.empty Map.empty"
  let ?ev = "ex_event 1 0xAB 0x1000 100 0 0"
  have a: "Print_addr ?env ?out ?ev = 0xfff"
    by (simp add: Print_addr_def ex_defs)
  have h1: "Addr2NameMap (addr2name ?out) (Print_addr ?env ?out ?ev) = None"
    by (simp add: a) (simp add: ex_out_def ex_syms_def)
  have h2: "Addr2NameMap (addr2name ?out) (Print_addr ?env ?out ?ev - 4) = None"
    by (simp add: a) (simp add: ex_out_def ex_syms_def)
  then have h2': "GOARCH ?env = ''amd64'' \<longrightarrow>
      Addr2NameMap (addr2name ?out) (Print_addr ?env ?out ?ev - 4) = None"
    by simp
  have wr: "length (written (writer ?out)) = 0"
    by (simp add: ex_out_def os_Stdout_def)
  have line: "pad_left 18 (hex_literal (SAddr ?ev)) @ '' '' @
       pad_left 6 (fmt_d (CPU ?ev)) @ '' '' @
       pad_left 16 (''['' @ Print_execName ?env ?ev @ '']'') @ '' '' @
       pad_left 24 (hex_literal (Print_addr ?env ?out ?ev)) =
     ''              0xab      3           [init]                    0xfff''"
    by (simp add: a) (simp add: Print_execName_def ex_env_def ex_event_def fmt_eval)
  have amd: "written (writer (Print ?env ?out ?ev)) ! 0 =
      ''              0xab      3           [init]                    0xfff''"
    using Print_shows_lookup_address [OF h1 h2', of "0", unfolded wr line] by blast
  have b: "Print_addr ?arm ?out ?ev = 0x1000"
    by (simp add: Print_addr_def ex_defs)
  have g1: "Addr2NameMap (addr2name ?out) (Print_addr ?arm ?out ?ev) = None"
    by (simp add: b) (simp add: ex_out_def ex_syms_def)
  have g2: "GOARCH ?arm = ''amd64'' \<longrightarrow>
      Addr2NameMap (addr2name ?out) (Print_addr ?arm ?out ?ev - 4) = None"
    by (simp add: ex_env_def)
  have arch: "GOARCH ?arm = ''amd64'' \<and> kprobeMulti ?out \<or> GOARCH ?arm = ''arm64''"
    by (simp add: ex_env_def)
  have line': "pad_left 18 (hex_literal (SAddr ?ev)) @ '' '' @
       pad_left 6 (fmt_d (CPU ?ev)) @ '' '' @
       pad_left 16 (''['' @ Print_execName ?arm ?ev @ '']'') @ '' '' @
       pad_left 24 (hex_literal (Print_addr ?arm ?out ?ev)) =
     ''              0xab      3           [init]                   0x1000''"
    by (simp add: b) (simp add: Print_execName_def ex_env_def ex_event_def fmt_eval)
  note arm = Print_shows_lookup_address [OF g1 g2, of "0", unfolded wr line']
  have same: "Print_addr ?arm ?out ?ev = Addr ?ev"
    using arm arch by blast
  have shown: "written (writer (Print ?arm ?out ?ev)) ! 0 =
      ''              0xab      3           [init]                   0x1000''"
    using arm by blast
  show ?thesis
    by (intro conjI) fact+
qed

text \<open>
  The process column of an event whose process has the two-byte, one-rune name
  \<open>0xC3 0xA9\<close>: 13 blanks before the bracket.
\<close>

lemma Print_columns_rune_padding:
  "Print_columns
     ((ex_env ''amd64'')\<lparr>FindProcess := \<lambda>pid. (Some (Process [CHR 0xC3, CHR 0xA9]), None)\<rparr>)
     (ex_out (ex_flags ''none'' False False) True Map.empty Map.empty)
     (ex_event 1 0xAB 0x2000 100 0 0) =
   ''              0xab      3 '' @ replicate 13 CHR '' '' @ ''['' @ [CHR 0xC3, CHR 0xA9] @
   '']                      foo''"
proof -
  have proc: "pad_left 16 (''['' @ [CHR 0xC3, CHR 0xA9] @ '']'') =
      replicate 13 CHR '' '' @ ''['' @ [CHR 0xC3, CHR 0xA9] @ '']''"
    using pad_left_counts_runes by blast
  have name: "Print_execName
      ((ex_env ''amd64'')\<lparr>FindProcess := \<lambda>pid. (Some (Process [CHR 0xC3, CHR 0xA9]), None)\<rparr>)
      (ex_event 1 0xAB 0x2000 100 0 0) = [CHR 0xC3, CHR 0xA9]"
    by (simp add: Print_execName_def)
  have fn: "Print_funcName
      ((ex_env ''amd64'')\<lparr>FindProcess := \<lambda>pid. (Some (Process [CHR 0xC3, CHR 0xA9]), None)\<rparr>)
      (ex_out (ex_flags ''none'' False False) True Map.empty Map.empty)
      (Print_addr
        ((ex_env ''amd64'')\<lparr>FindProcess := \<lambda>pid. (Some (Process [CHR 0xC3, CHR 0xA9]), None)\<rparr>)
        (ex_out (ex_flags ''none'' False False) True Map.empty Map.empty)
        (ex_event 1 0xAB 0x2000 100 0 0)) = ''foo''"
    by (simp add: Print_funcName_def Print_addr_def ex_defs)
  have others: "pad_left 18 (hex_literal (SAddr (ex_event 1 0xAB 0x2000 100 0 0))) =
      ''              0xab''"
    "pad_left 6 (fmt_d (CPU (ex_event 1 0xAB 0x2000 100 0 0))) = ''     3''"
    "pad_left 24 ''foo'' = ''                     foo''"
    by (simp_all add: ex_event_def fmt_eval)
  show ?thesis
    unfolding Print_columns_def name fn others proc by simp
qed

section \<open>Tuple endpoints\<close>

lemma NetworkToHost16_load16:
  "NetworkToHost16 h (load16 h b0 b1) = load16 BigEndian b0 b1"
proof (cases h)
  case BigEndian
  then show ?thesis by (simp add: NetworkToHost16_def)
next
  case LittleEndian
  have "push_bit 8 (push_bit 8 (ucast b1) OR ucast b0) OR
        drop_bit 8 (push_bit 8 (ucast b1) OR ucast b0) =
        (push_bit 8 (ucast b0) OR ucast b1 :: u16)"
    by (rule bit_word_eqI) (auto simp add: bit_simps dest: bit_imp_le_length)
  then show ?thesis
    using LittleEndian by (simp add: NetworkToHost16_def load16_def)
qed

text \<open>
  Claim C8. An endpoint is rendered from the leading 4 bytes of the address buffer for
  the IPv4 tag and nothing else of the buffer, from the whole buffer for the IPv6 tag
  (there in brackets), and as the empty string for any other L3 tag. The ports pass
  through the conversion from network to host byte order before they are rendered in
  decimal: a port that the host reads from two bytes of memory is rendered as the number
  those two bytes are in network (big-endian) order.
\<close>

theorem tuple_rendering:
  "addrToStr ips ETH_P_IP a = ips (take 4 a) \<and>
   (take 4 a = take 4 b \<longrightarrow> addrToStr ips ETH_P_IP a = addrToStr ips ETH_P_IP b) \<and>
   addrToStr ips ETH_P_IPV6 a = ''['' @ ips a @ '']'' \<and>
   (p \<noteq> ETH_P_IP \<and> p \<noteq> ETH_P_IPV6 \<longrightarrow> addrToStr ips p a = '''') \<and>
   (Sport t = load16 (host_order env) s0 s1 \<and> Dport t = load16 (host_order env) d0 d1 \<longrightarrow>
      Print_tuple env t =
        '' '' @ addrToStr (IP_String env) (L3Proto t) (Saddr t) @ '':'' @
        fmt_d (uint (load16 BigEndian s0 s1)) @ ''->'' @
        addrToStr (IP_String env) (L3Proto t) (Daddr t) @ '':'' @
        fmt_d (uint (load16 BigEndian d0 d1)) @
        ''('' @ protoToStr (L4Proto t) @ '')'') \<and>
   (OutputTuple (flags out) \<longrightarrow>
      Print_tuple env (Tuple event) \<in> set (written (writer (Print env out event))))"
proof (intro conjI impI)
  show "addrToStr ips ETH_P_IP a = ips (take 4 a)"
    by (simp add: addrToStr_def)
  show "addrToStr ips ETH_P_IPV6 a = ''['' @ ips a @ '']''"
    by (simp add: addrToStr_def ETH_P_IP_def ETH_P_IPV6_def)
next
  assume "take 4 a = take 4 b"
  then show "addrToStr ips ETH_P_IP a = addrToStr ips ETH_P_IP b"
    by (simp add: addrToStr_def)
next
  assume "p \<noteq> ETH_P_IP \<and> p \<noteq> ETH_P_IPV6"
  then show "addrToStr ips p a = ''''"
    by (simp add: addrToStr_def)
next
  assume "Sport t = load16 (host_order env) s0 s1 \<and> Dport t = load16 (host_order env) d0 d1"
  then show "Print_tuple env t =
        '' '' @ addrToStr (IP_String env) (L3Proto t) (Saddr t) @ '':'' @
        fmt_d (uint (load16 BigEndian s0 s1)) @ ''->'' @
        addrToStr (IP_String env) (L3Proto t) (Daddr t) @ '':'' @
        fmt_d (uint (load16 BigEndian d0 d1)) @
        ''('' @ protoToStr (L4Proto t) @ '')''"
    by (simp add: Print_tuple_def NetworkToHost16_load16)
next
  assume "OutputTuple (flags out)"
  then show "Print_tuple env (Tuple event) \<in> set (written (writer (Print env out event)))"
    by (simp add: Print_written)
qed

theorem tuple_rendering_witness:
  "(0x0806 :: u16) \<noteq> ETH_P_IP \<and> (0x0806 :: u16) \<noteq> ETH_P_IPV6 \<and>
   addrToStr dotted 0x0806 (Saddr (Tuple (ex_event 1 0xAB 0x2000 100 0 0))) = '''' \<and>
   take 4 (Saddr (Tuple (ex_event 1 0xAB 0x2000 100 0 0))) = take 4 [10, 0, 0, 1] \<and>
   addrToStr dotted ETH_P_IP (Saddr (Tuple (ex_event 1 0xAB 0x2000 100 0 0))) =
     addrToStr dotted ETH_P_IP [10, 0, 0, 1] \<and>
   addrToStr dotted ETH_P_IP (Saddr (Tuple (ex_event 1 0xAB 0x2000 100 0 0))) = ''10.0.0.1'' \<and>
   Sport (Tuple (ex_event 1 0xAB 0x2000 100 0 0)) =
     load16 (host_order (ex_env ''amd64'')) 0x00 0x50 \<and>
   Dport (Tuple (ex_event 1 0xAB 0x2000 100 0 0)) =
     load16 (host_order (ex_env ''amd64'')) 0x01 0xbb \<and>
   Print_tuple (ex_env ''amd64'') (Tuple (ex_event 1 0xAB 0x2000 100 0 0)) =
     '' 10.0.0.1:80->10.0.0.2:443(tcp)'' \<and>
   OutputTuple (flags (ex_out ((ex_flags ''none'' False False)\<lparr>OutputTuple := True\<rparr>) True
                         Map.empty Map.empty)) \<and>
   '' 10.0.0.1:80->10.0.0.2:443(tcp)'' \<in>
     set (written (writer (Print (ex_env ''amd64'')
            (ex_out ((ex_flags ''none'' False False)\<lparr>OutputTuple := True\<rparr>) True
               Map.empty Map.empty)
            (ex_event 1 0xAB 0x2000 100 0 0))))"
proof -
  let ?env = "ex_env ''amd64''"
  let ?out = "ex_out ((ex_flags ''none'' False False)\<lparr>OutputTuple := True\<rparr>) True
                Map.empty Map.empty"
  let ?ev = "ex_event 1 0xAB 0x2000 100 0 0"
  note th = tuple_rendering [where ips = dotted and a = "Saddr (Tuple ?ev)" and b = "[10, 0, 0, 1]"
      and p = "0x0806" and t = "Tuple ?ev" and env = ?env and ?s0.0 = "0x00" and ?s1.0 = "0x50"
      and ?d0.0 = "0x01" and ?d1.0 = "0xbb" and out = ?out and event = ?ev]
  have arp: "(0x0806 :: u16) \<noteq> ETH_P_IP \<and> (0x0806 :: u16) \<noteq> ETH_P_IPV6"
    by (simp add: ETH_P_IP_def ETH_P_IPV6_def)
  have ports: "Sport (Tuple ?ev) = load16 (host_order ?env) 0x00 0x50 \<and>
      Dport (Tuple ?ev) = load16 (host_order ?env) 0x01 0xbb"
    by (simp add: ex_event_def ex_env_def load16_def)
  have on: "OutputTuple (flags ?out)"
    by (simp add: ex_out_def ex_flags_def)
  have empty: "addrToStr dotted 0x0806 (Saddr (Tuple ?ev)) = ''''"
    using th arp by blast
  have lead: "take 4 (Saddr (Tuple ?ev)) = take 4 [10, 0, 0, 1]"
    by (simp add: ex_event_def)
  have same: "addrToStr dotted ETH_P_IP (Saddr (Tuple ?ev)) = addrToStr dotted ETH_P_IP [10, 0, 0, 1]"
    using th lead by blast
  have "addrToStr dotted ETH_P_IP (Saddr (Tuple ?ev)) = dotted (take 4 (Saddr (Tuple ?ev)))"
    using th by blast
  also have "\<dots> = ''10.0.0.1''"
    by (simp add: ex_event_def fmt_d_def fmt_int_def digits_of.simps digit_char_def)
  finally have v4: "addrToStr dotted ETH_P_IP (Saddr (Tuple ?ev)) = ''10.0.0.1''" .
  have "Print_tuple ?env (Tuple ?ev) =
        '' '' @ addrToStr (IP_String ?env) (L3Proto (Tuple ?ev)) (Saddr (Tuple ?ev)) @ '':'' @
        fmt_d (uint (load16 BigEndian 0x00 0x50)) @ ''->'' @
        addrToStr (IP_String ?env) (L3Proto (Tuple ?ev)) (Daddr (Tuple ?ev)) @ '':'' @
        fmt_d (uint (load16 BigEndian 0x01 0xbb)) @
        ''('' @ protoToStr (L4Proto (Tuple ?ev)) @ '')''"
    using th ports by blast
  also have "\<dots> = '' 10.0.0.1:80->10.0.0.2:443(tcp)''"
    by (simp add: addrToStr_def ETH_P_IP_def protoToStr_def IPPROTO_TCP_def load16_def
        ex_event_def ex_env_def fmt_d_def fmt_int_def digits_of.simps digit_char_def)
  finally have rendered: "Print_tuple ?env (Tuple ?ev) = '' 10.0.0.1:80->10.0.0.2:443(tcp)''" .
  have "Print_tuple ?env (Tuple ?ev) \<in> set (written (writer (Print ?env ?out ?ev)))"
    using th on by blast
  then have shown: "'' 10.0.0.1:80->10.0.0.2:443(tcp)'' \<in>
      set (written (writer (Print ?env ?out ?ev)))"
    by (simp only: rendered)
  show ?thesis
    using arp empty lead same v4 ports rendered on shown by blast
qed

section \<open>The stack and buffer sections\<close>

text \<open>
  Claim C4, as the source has it. The claim says that an entry of either table is
  deleted when it is expanded. The buffer section (lines 130-135) only looks the entry
  up: with buffer id 7 and an entry for 7 in the buffer table, the entry is rendered, is
  still in the table after \<open>Print\<close>, no delete was called, and the same event printed
  again renders it again.
\<close>

theorem buffer_entry_kept:
  "skb_lines (ex_out (ex_flags ''none'' False True) True [7 \<mapsto> ''pkt''] Map.empty)
     (ex_event 1 0xAB 0x2000 100 7 0) = [[CHR 0x0A] @ ''pkt''] \<and>
   entries (printSkbMap (Print (ex_env ''amd64'')
     (ex_out (ex_flags ''none'' False True) True [7 \<mapsto> ''pkt''] Map.empty)
     (ex_event 1 0xAB 0x2000 100 7 0))) 7 = Some ''pkt'' \<and>
   calls (printSkbMap (Print (ex_env ''amd64'')
     (ex_out (ex_flags ''none'' False True) True [7 \<mapsto> ''pkt''] Map.empty)
     (ex_event 1 0xAB 0x2000 100 7 0))) = [LookupBytesCall 7] \<and>
   skb_lines
     (Print (ex_env ''amd64'')
        (ex_out (ex_flags ''none'' False True) True [7 \<mapsto> ''pkt''] Map.empty)
        (ex_event 1 0xAB 0x2000 100 7 0))
     (ex_event 1 0xAB 0x2000 100 7 0) = [[CHR 0x0A] @ ''pkt'']"
proof -
  let ?env = "ex_env ''amd64''"
  let ?out = "ex_out (ex_flags ''none'' False True) True [7 \<mapsto> ''pkt''] Map.empty"
  let ?ev = "ex_event 1 0xAB 0x2000 100 7 0"
  have fl: "OutputSkb (flags ?out)" "\<not> closed (printSkbMap ?out)"
    "entries (printSkbMap ?out) = [7 \<mapsto> ''pkt'']" "calls (printSkbMap ?out) = []"
    by (simp_all add: ex_out_def ex_flags_def ex_table_def)
  have id: "(word_of_int (PrintSkbId ?ev) :: u32) = 7"
    by (simp add: ex_event_def)
  have after: "printSkbMap (Print ?env ?out ?ev) =
      (printSkbMap ?out)\<lparr>calls := [LookupBytesCall 7]\<rparr>"
    by (simp add: Print_printSkbMap skb_table_after fl id)
  show ?thesis
    by (simp add: skb_lines_eq after Print_flags fl id newline_def)
qed

text \<open>
  Claim C4, amended. An entry of the stack table that is expanded (stack output is on,
  the id is greater than 0 and the lookup finds it) is rendered and then deleted: after
  \<open>Print\<close> the table has no entry under that id, and an event with the same id renders
  no stack line. The buffer section deletes nothing: \<open>Print\<close> leaves the entries of the
  buffer table as they are, and the same event renders the same buffer text again.
\<close>

theorem stack_consumed_buffer_kept:
  "(OutputStack (flags out) \<and> 0 < PrintStackId event \<and> \<not> closed (printStackMap out) \<and>
    entries (printStackMap out) (word_of_int (PrintStackId event)) = Some stack \<longrightarrow>
      stack_lines out event = frames_text (addr2name out) (IPs stack) \<and>
      calls (printStackMap (Print env out event)) =
        calls (printStackMap out) @ [LookupCall (word_of_int (PrintStackId event)),
                                     DeleteCall (word_of_int (PrintStackId event))] \<and>
      entries (printStackMap (Print env out event)) =
        (entries (printStackMap out))(word_of_int (PrintStackId event) := None) \<and>
      ((word_of_int (PrintStackId event') :: u32) = word_of_int (PrintStackId event) \<longrightarrow>
         stack_lines (Print env out event) event' = [])) \<and>
   entries (printSkbMap (Print env out event)) = entries (printSkbMap out) \<and>
   skb_lines (Print env out event) event = skb_lines out event"
proof -
  have skb: "entries (printSkbMap (Print env out event)) = entries (printSkbMap out)"
    "closed (printSkbMap (Print env out event)) = closed (printSkbMap out)"
    by (simp_all add: Print_printSkbMap skb_table_after)
  have stk: "closed (printStackMap (Print env out event)) = closed (printStackMap out)"
    by (simp add: Print_printStackMap stack_table_after)
  show ?thesis
    by (simp add: skb stk skb_lines_eq stack_lines_eq Print_flags Print_addr2name)
       (simp add: Print_printStackMap stack_table_after)
qed

theorem stack_consumed_buffer_kept_witness:
  "OutputStack (flags (ex_out (ex_flags ''none'' True True) True [7 \<mapsto> ''pkt'']
                         [7 \<mapsto> \<lparr>IPs = [0x2010, 0, 0x2020]\<rparr>])) \<and>
   0 < PrintStackId (ex_event 1 0xAB 0x2000 100 7 7) \<and>
   entries (printStackMap (ex_out (ex_flags ''none'' True True) True [7 \<mapsto> ''pkt'']
                             [7 \<mapsto> \<lparr>IPs = [0x2010, 0, 0x2020]\<rparr>])) 7 =
     Some \<lparr>IPs = [0x2010, 0, 0x2020]\<rparr> \<and>
   stack_lines (ex_out (ex_flags ''none'' True True) True [7 \<mapsto> ''pkt'']
                  [7 \<mapsto> \<lparr>IPs = [0x2010, 0, 0x2020]\<rparr>])
     (ex_event 1 0xAB 0x2000 100 7 7) = [[CHR 0x0A] @ ''foo'', [CHR 0x0A] @ ''foo''] \<and>
   entries (printStackMap (Print (ex_env ''amd64'')
      (ex_out (ex_flags ''none'' True True) True [7 \<mapsto> ''pkt'']
         [7 \<mapsto> \<lparr>IPs = [0x2010, 0, 0x2020]\<rparr>])
      (ex_event 1 0xAB 0x2000 100 7 7))) 7 = None \<and>
   stack_lines
     (Print (ex_env ''amd64'')
        (ex_out (ex_flags ''none'' True True) True [7 \<mapsto> ''pkt'']
           [7 \<mapsto> \<lparr>IPs = [0x2010, 0, 0x2020]\<rparr>])
        (ex_event 1 0xAB 0x2000 100 7 7))
     (ex_event 1 0xAB 0x2000 100 7 7) = [] \<and>
   entries (printSkbMap (Print (ex_env ''amd64'')
      (ex_out (ex_flags ''none'' True True) True [7 \<mapsto> ''pkt'']
         [7 \<mapsto> \<lparr>IPs = [0x2010, 0, 0x2020]\<rparr>])
      (ex_event 1 0xAB 0x2000 100 7 7))) 7 = Some ''pkt''"
proof -
  let ?env = "ex_env ''amd64''"
  let ?st = "\<lparr>IPs = [0x2010, 0, 0x2020]\<rparr>"
  let ?out = "ex_out (ex_flags ''none'' True True) True [7 \<mapsto> ''pkt''] [7 \<mapsto> ?st]"
  let ?ev = "ex_event 1 0xAB 0x2000 100 7 7"
  have id: "(word_of_int (PrintStackId ?ev) :: u32) = 7"
    by (simp add: ex_event_def)
  have on: "OutputStack (flags ?out)" "0 < PrintStackId ?ev" "\<not> closed (printStackMap ?out)"
    by (simp_all add: ex_out_def ex_flags_def ex_event_def ex_table_def)
  have e7: "entries (printStackMap ?out) 7 = Some ?st"
    by (simp add: ex_out_def ex_table_def)
  have hyp: "OutputStack (flags ?out) \<and> 0 < PrintStackId ?ev \<and> \<not> closed (printStackMap ?out) \<and>
      entries (printStackMap ?out) (word_of_int (PrintStackId ?ev)) = Some ?st"
    using on e7 by (simp add: id)
  have frames: "frames_text (addr2name ?out) (IPs ?st) = [[CHR 0x0A] @ ''foo'', [CHR 0x0A] @ ''foo'']"
    by (simp add: frames_text_def ex_out_def ex_syms_def newline_def)
  have keep: "entries (printSkbMap ?out) 7 = Some ''pkt''"
    by (simp add: ex_out_def ex_table_def)
  note th = stack_consumed_buffer_kept [where out = ?out and event = ?ev and stack = ?st
      and env = ?env and event' = ?ev]
  have lines: "stack_lines ?out ?ev = [[CHR 0x0A] @ ''foo'', [CHR 0x0A] @ ''foo'']"
    using th hyp frames by simp
  have gone: "entries (printStackMap (Print ?env ?out ?ev)) 7 = None"
    using th hyp by (simp add: id)
  have again: "stack_lines (Print ?env ?out ?ev) ?ev = []"
    using th hyp by blast
  have kept: "entries (printSkbMap (Print ?env ?out ?ev)) 7 = Some ''pkt''"
    using th keep by simp
  show ?thesis
    using on e7 lines gone again kept by blast
qed

text \<open>
  Claim C5, as the source has it. The claim says that a delete is issued only after a
  successful fetch, and that nothing is rendered for id 0. The delete of the stack
  section (line 127) stands after the \<open>if\<close> of the lookup, not inside it: with stack
  id 7 and no entry for 7 the lookup fails and the delete is called all the same. The
  buffer section has no test of the id: with buffer id 0 and an entry for 0 in the buffer
  table, the entry is rendered.
\<close>

theorem delete_follows_failed_lookup:
  "snd (Lookup (printStackMap (ex_out (ex_flags ''none'' True False) True Map.empty Map.empty)) 7) =
     Inl ErrKeyNotExist \<and>
   calls (printStackMap (Print (ex_env ''amd64'')
     (ex_out (ex_flags ''none'' True False) True Map.empty Map.empty)
     (ex_event 1 0xAB 0x2000 100 0 7))) = [LookupCall 7, DeleteCall 7] \<and>
   PrintSkbId (ex_event 1 0xAB 0x2000 100 0 0) = 0 \<and>
   written (writer (Print (ex_env ''amd64'')
     (ex_out (ex_flags ''none'' False True) True [0 \<mapsto> ''pkt''] Map.empty)
     (ex_event 1 0xAB 0x2000 100 0 0))) =
   [''              0xab      3           [init]                      foo'',
    [CHR 0x0A] @ ''pkt'', [CHR 0x0A]]"
proof -
  let ?env = "ex_env ''amd64''"
  let ?out1 = "ex_out (ex_flags ''none'' True False) True Map.empty Map.empty"
  let ?ev1 = "ex_event 1 0xAB 0x2000 100 0 7"
  let ?out2 = "ex_out (ex_flags ''none'' False True) True [0 \<mapsto> ''pkt''] Map.empty"
  let ?ev2 = "ex_event 1 0xAB 0x2000 100 0 0"
  have miss: "snd (Lookup (printStackMap ?out1) 7) = Inl ErrKeyNotExist"
    by (simp add: Lookup_def ex_out_def ex_table_def)
  have id1: "(word_of_int (PrintStackId ?ev1) :: u32) = 7" "0 < PrintStackId ?ev1"
    by (simp_all add: ex_event_def)
  have fl1: "OutputStack (flags ?out1)" "calls (printStackMap ?out1) = []"
    by (simp_all add: ex_out_def ex_flags_def ex_table_def)
  have del: "calls (printStackMap (Print ?env ?out1 ?ev1)) = [LookupCall 7, DeleteCall 7]"
    by (simp add: Print_printStackMap stack_table_after fl1 id1)
  have id2: "PrintSkbId ?ev2 = 0" "PrintStackId ?ev2 = 0"
    by (simp_all add: ex_event_def)
  have fl2: "OutputTS (flags ?out2) = ''none''" "\<not> OutputMeta (flags ?out2)"
    "\<not> OutputTuple (flags ?out2)" "\<not> OutputStack (flags ?out2)" "OutputSkb (flags ?out2)"
    "\<not> closed (printSkbMap ?out2)" "entries (printSkbMap ?out2) 0 = Some ''pkt''"
    "written (writer ?out2) = []"
    by (simp_all add: ex_out_def ex_flags_def ex_table_def os_Stdout_def)
  have cols: "Print_columns ?env ?out2 ?ev2 =
      ''              0xab      3           [init]                      foo''"
    by (simp add: Print_columns_def Print_execName_def Print_funcName_def Print_addr_def
        fmt_eval ex_defs)
  have "written (writer (Print ?env ?out2 ?ev2)) =
      [''              0xab      3           [init]                      foo'',
       [CHR 0x0A] @ ''pkt'', [CHR 0x0A]]"
    by (simp add: Print_written cols fl2 id2 stack_lines_eq skb_lines_eq newline_def)
  then show ?thesis
    using miss del id2 by simp
qed

text \<open>
  Claim C5, amended. Neither section raises an error. The stack section does nothing
  when stack output is off or the id is not greater than 0: no line, no call on the
  table. When the id is greater than 0 and the lookup fails, it renders nothing and
  leaves the entries of the table as they are, but it has called the delete after the
  lookup, as it does after every lookup. The buffer section does nothing when buffer
  output is off, and renders nothing when its lookup fails; it has no test of the id, so
  an entry under any id, 0 included, is rendered when it is found; and it never calls a
  delete: its only call is the lookup, and the entries of the buffer table stay as they
  are.
\<close>

theorem expanders_on_miss:
  "(\<not> (OutputStack (flags out) \<and> 0 < PrintStackId event) \<longrightarrow>
      stack_lines out event = [] \<and> printStackMap (Print env out event) = printStackMap out) \<and>
   (OutputStack (flags out) \<and> 0 < PrintStackId event \<and>
    (closed (printStackMap out) \<or>
     entries (printStackMap out) (word_of_int (PrintStackId event)) = None) \<longrightarrow>
      stack_lines out event = [] \<and>
      entries (printStackMap (Print env out event)) = entries (printStackMap out) \<and>
      calls (printStackMap (Print env out event)) =
        calls (printStackMap out) @ [LookupCall (word_of_int (PrintStackId event)),
                                     DeleteCall (word_of_int (PrintStackId event))]) \<and>
   (\<not> OutputSkb (flags out) \<longrightarrow>
      skb_lines out event = [] \<and> printSkbMap (Print env out event) = printSkbMap out) \<and>
   (OutputSkb (flags out) \<and> closed (printSkbMap out) \<longrightarrow> skb_lines out event = []) \<and>
   (OutputSkb (flags out) \<and> \<not> closed (printSkbMap out) \<and>
    entries (printSkbMap out) (word_of_int (PrintSkbId event)) = Some v \<longrightarrow>
      skb_lines out event = [newline @ v]) \<and>
   (OutputSkb (flags out) \<longrightarrow>
      calls (printSkbMap (Print env out event)) =
        calls (printSkbMap out) @ [LookupBytesCall (word_of_int (PrintSkbId event))]) \<and>
   entries (printSkbMap (Print env out event)) = entries (printSkbMap out)"
proof (intro conjI impI)
  assume "\<not> (OutputStack (flags out) \<and> 0 < PrintStackId event)"
  then show "stack_lines out event = []"
    and "printStackMap (Print env out event) = printStackMap out"
    by (auto simp add: stack_lines_eq Print_printStackMap stack_table_after)
next
  assume miss: "OutputStack (flags out) \<and> 0 < PrintStackId event \<and>
    (closed (printStackMap out) \<or>
     entries (printStackMap out) (word_of_int (PrintStackId event)) = None)"
  then show "stack_lines out event = []"
    by (auto simp add: stack_lines_eq)
  from miss show "entries (printStackMap (Print env out event)) = entries (printStackMap out)"
    by (auto simp add: Print_printStackMap stack_table_after)
  from miss show "calls (printStackMap (Print env out event)) =
        calls (printStackMap out) @ [LookupCall (word_of_int (PrintStackId event)),
                                     DeleteCall (word_of_int (PrintStackId event))]"
    by (simp add: Print_printStackMap stack_table_after)
next
  assume "\<not> OutputSkb (flags out)"
  then show "skb_lines out event = []" and "printSkbMap (Print env out event) = printSkbMap out"
    by (simp_all add: skb_lines_eq Print_printSkbMap skb_table_after)
next
  assume "OutputSkb (flags out) \<and> closed (printSkbMap out)"
  then show "skb_lines out event = []"
    by (simp add: skb_lines_eq)
next
  assume "OutputSkb (flags out) \<and> \<not> closed (printSkbMap out) \<and>
    entries (printSkbMap out) (word_of_int (PrintSkbId event)) = Some v"
  then show "skb_lines out event = [newline @ v]"
    by (simp add: skb_lines_eq)
next
  assume "OutputSkb (flags out)"
  then show "calls (printSkbMap (Print env out event)) =
        calls (printSkbMap out) @ [LookupBytesCall (word_of_int (PrintSkbId event))]"
    by (simp add: Print_printSkbMap skb_table_after)
next
  show "entries (printSkbMap (Print env out event)) = entries (printSkbMap out)"
    by (simp add: Print_printSkbMap skb_table_after)
qed

theorem expanders_on_miss_witness:
  "\<not> (OutputStack (flags (ex_out (ex_flags ''none'' True True) True [7 \<mapsto> ''pkt''] Map.empty)) \<and>
      0 < PrintStackId (ex_event 1 0xAB 0x2000 100 7 0)) \<and>
   printStackMap (Print (ex_env ''amd64'')
      (ex_out (ex_flags ''none'' True True) True [7 \<mapsto> ''pkt''] Map.empty)
      (ex_event 1 0xAB 0x2000 100 7 0)) =
     printStackMap (ex_out (ex_flags ''none'' True True) True [7 \<mapsto> ''pkt''] Map.empty) \<and>
   entries (printStackMap (ex_out (ex_flags ''none'' True True) True [7 \<mapsto> ''pkt''] Map.empty))
     (word_of_int (PrintStackId (ex_event 1 0xAB 0x2000 100 7 9))) = None \<and>
   stack_lines (ex_out (ex_flags ''none'' True True) True [7 \<mapsto> ''pkt''] Map.empty)
     (ex_event 1 0xAB 0x2000 100 7 9) = [] \<and>
   calls (printStackMap (Print (ex_env ''amd64'')
      (ex_out (ex_flags ''none'' True True) True [7 \<mapsto> ''pkt''] Map.empty)
      (ex_event 1 0xAB 0x2000 100 7 9))) = [LookupCall 9, DeleteCall 9] \<and>
   closed (printSkbMap ((ex_out (ex_flags ''none'' True True) True [7 \<mapsto> ''pkt''] Map.empty)
      \<lparr>printSkbMap := (ex_table [7 \<mapsto> ''pkt''])\<lparr>closed := True\<rparr>\<rparr>)) \<and>
   skb_lines ((ex_out (ex_flags ''none'' True True) True [7 \<mapsto> ''pkt''] Map.empty)
      \<lparr>printSkbMap := (ex_table [7 \<mapsto> ''pkt''])\<lparr>closed := True\<rparr>\<rparr>)
     (ex_event 1 0xAB 0x2000 100 7 0) = [] \<and>
   skb_lines (ex_out (ex_flags ''none'' True True) True [7 \<mapsto> ''pkt''] Map.empty)
     (ex_event 1 0xAB 0x2000 100 7 0) = [[CHR 0x0A] @ ''pkt''] \<and>
   calls (printSkbMap (Print (ex_env ''amd64'')
      (ex_out (ex_flags ''none'' True True) True [7 \<mapsto> ''pkt''] Map.empty)
      (ex_event 1 0xAB 0x2000 100 7 0))) = [LookupBytesCall 7] \<and>
   \<not> OutputSkb (flags (ex_out (ex_flags ''none'' True False) True [7 \<mapsto> ''pkt''] Map.empty)) \<and>
   skb_lines (ex_out (ex_flags ''none'' True False) True [7 \<mapsto> ''pkt''] Map.empty)
     (ex_event 1 0xAB 0x2000 100 7 0) = []"
proof -
  let ?env = "ex_env ''amd64''"
  let ?out = "ex_out (ex_flags ''none'' True True) True [7 \<mapsto> ''pkt''] Map.empty"
  let ?shut = "?out\<lparr>printSkbMap := (ex_table [7 \<mapsto> ''pkt''])\<lparr>closed := True\<rparr>\<rparr>"
  let ?off = "ex_out (ex_flags ''none'' True False) True [7 \<mapsto> ''pkt''] Map.empty"
  let ?ev0 = "ex_event 1 0xAB 0x2000 100 7 0"
  let ?ev9 = "ex_event 1 0xAB 0x2000 100 7 9"
  have ids: "(word_of_int (PrintStackId ?ev9) :: u32) = 9" "0 < PrintStackId ?ev9"
    "\<not> 0 < PrintStackId ?ev0" "(word_of_int (PrintSkbId ?ev0) :: u32) = 7"
    by (simp_all add: ex_event_def)
  have fl: "OutputStack (flags ?out)" "OutputSkb (flags ?out)" "\<not> closed (printSkbMap ?out)"
    "entries (printStackMap ?out) 9 = None" "entries (printSkbMap ?out) 7 = Some ''pkt''"
    "calls (printStackMap ?out) = []" "calls (printSkbMap ?out) = []"
    by (simp_all add: ex_out_def ex_flags_def ex_table_def)
  have shut: "OutputSkb (flags ?shut)" "closed (printSkbMap ?shut)"
    by (simp_all add: ex_out_def ex_flags_def)
  have off: "\<not> OutputSkb (flags ?off)"
    by (simp add: ex_out_def ex_flags_def)
  have no_id: "\<not> (OutputStack (flags ?out) \<and> 0 < PrintStackId ?ev0)"
    using ids by simp
  have untouched: "printStackMap (Print ?env ?out ?ev0) = printStackMap ?out"
    using expanders_on_miss [where out = ?out and event = ?ev0 and env = ?env] no_id by blast
  have miss: "OutputStack (flags ?out) \<and> 0 < PrintStackId ?ev9 \<and>
      (closed (printStackMap ?out) \<or>
       entries (printStackMap ?out) (word_of_int (PrintStackId ?ev9)) = None)"
    using fl ids by simp
  note th9 = expanders_on_miss [where out = ?out and event = ?ev9 and env = ?env]
  have nothing: "stack_lines ?out ?ev9 = []"
    using th9 miss by blast
  have "calls (printStackMap (Print ?env ?out ?ev9)) =
      calls (printStackMap ?out) @ [LookupCall (word_of_int (PrintStackId ?ev9)),
                                    DeleteCall (word_of_int (PrintStackId ?ev9))]"
    using th9 miss by blast
  then have deleted: "calls (printStackMap (Print ?env ?out ?ev9)) = [LookupCall 9, DeleteCall 9]"
    by (simp add: fl ids)
  have failed: "skb_lines ?shut ?ev0 = []"
    using expanders_on_miss [where out = ?shut and event = ?ev0 and env = ?env] shut by blast
  have found: "OutputSkb (flags ?out) \<and> \<not> closed (printSkbMap ?out) \<and>
      entries (printSkbMap ?out) (word_of_int (PrintSkbId ?ev0)) = Some ''pkt''"
    using fl ids by simp
  note th0 = expanders_on_miss [where out = ?out and event = ?ev0 and env = ?env
      and v = "''pkt''"]
  have "skb_lines ?out ?ev0 = [newline @ ''pkt'']"
    using th0 found by blast
  then have shown: "skb_lines ?out ?ev0 = [[CHR 0x0A] @ ''pkt'']"
    by (simp add: newline_def)
  have "calls (printSkbMap (Print ?env ?out ?ev0)) =
      calls (printSkbMap ?out) @ [LookupBytesCall (word_of_int (PrintSkbId ?ev0))]"
    using th0 fl by blast
  then have looked: "calls (printSkbMap (Print ?env ?out ?ev0)) = [LookupBytesCall 7]"
    by (simp add: fl ids)
  have silent: "skb_lines ?off ?ev0 = []"
    using expanders_on_miss [where out = ?off and event = ?ev0 and env = ?env] off by blast
  have none9: "entries (printStackMap ?out) (word_of_int (PrintStackId ?ev9)) = None"
    using fl ids by simp
  show ?thesis
    by (intro conjI) fact+
qed

end
